theory Spec2Isabelle
  imports Complex_Main "HOL-Library.AList"
begin

section \<open>Static model (package ODP)\<close>

text \<open>
  The classes of \<^verbatim>\<open>src/ODP\<close> are dataclasses. Each becomes a record or a datatype
  whose fields carry the source's names, behind a short prefix where several classes
  share a name (\<^verbatim>\<open>name\<close>, \<^verbatim>\<open>parameters\<close>, \<^verbatim>\<open>tokens\<close>).
\<close>

datatype pyerror = AttributeError | KeyError | IndexError | ValueError | TypeError | SystemExit

text \<open>
  A field annotated \<^verbatim>\<open>Tuple[...]\<close> holds whatever sequence the constructor was given:
  a tuple, or a list (\<^verbatim>\<open>Event.artifacts\<close> even defaults to one). The two differ: a
  list never equals a tuple, and a list cannot be hashed.
\<close>

datatype 'a pyseq = PyList (items: "'a list") | PyTuple (items: "'a list")

record parameter =
  par_name :: string
  par_type_hint :: string

record event =
  ev_name :: string
  ev_artifacts :: "parameter pyseq"

text \<open>
  \<^verbatim>\<open>Event\<close> is a frozen dataclass: its hash is the hash of the tuple of its fields,
  which raises \<^verbatim>\<open>TypeError\<close> when \<^verbatim>\<open>artifacts\<close> is a list.
\<close>

definition hashable :: "event \<Rightarrow> bool" where
  "hashable e = (case ev_artifacts e of PyTuple ps \<Rightarrow> True | PyList ps \<Rightarrow> False)"

text \<open>
  \<^verbatim>\<open>EventExpression(op, operands)\<close>: an operand is an \<^verbatim>\<open>Event\<close>, a nested
  expression, or \<^verbatim>\<open>None\<close> (what the hydrator stores for an unresolved reference).
\<close>

datatype event_expression =
  EventExpression (ee_op: "string option") (ee_operands: "operand list")
and operand = OpEvent event | OpExpr event_expression | OpNone

record guard =
  raw :: string

datatype deontic_type = BURDEN | PERMIT | EMBARGO

text \<open>
  The class of a token template: \<^verbatim>\<open>DeonticToken\<close> itself or one of its subclasses
  \<^verbatim>\<open>Burden\<close>, \<^verbatim>\<open>Permit\<close>, \<^verbatim>\<open>Embargo\<close>. The engine tests the class
  (\<^verbatim>\<open>isinstance\<close>), the methods \<^verbatim>\<open>is_permit\<close>, \<^verbatim>\<open>is_burden\<close>, \<^verbatim>\<open>is_embargo\<close> test
  the field \<^verbatim>\<open>token_type\<close>.
\<close>

datatype token_class = DeonticTokenClass | BurdenClass | PermitClass | EmbargoClass

datatype delegated_token = DELEGATED_PERMIT | DELEGATED_BURDEN

text \<open>
  Token templates, actions and roles refer to each other: a token names the role it
  affects, a delegation the role of its agent, an action call the role it calls, and a
  role holds its actions and tokens. \<^verbatim>\<open>BasicAction\<close> and \<^verbatim>\<open>SpeechAct\<close> extend
  \<^verbatim>\<open>Action\<close>; \<^verbatim>\<open>Authorization\<close>, \<^verbatim>\<open>Declaration\<close> and \<^verbatim>\<open>Delegation\<close> extend
  \<^verbatim>\<open>SpeechAct\<close> and inherit its \<^verbatim>\<open>tokens\<close> list, the first argument of their
  constructors here.
\<close>

datatype deontic_token =
  DeonticToken (tok_class: token_class) (token_type: deontic_type) (tok_name: string)
    (tok_parameters: "string list") (affected_role: "community_role option")
    (pre_activation_guard: "guard option") (activation_trigger: "event option")
    (finish_expression: "event_expression option") (post_event_guard: "guard option")
and action_call =
  ActionCall (call_role: community_role) (call_action: string) (call_arguments: "string list")
and action_variant =
  BasicAction (return_type: "string option") (calls: "action_call list")
| SpeechAct "deontic_token list"
| Authorization "deontic_token list"
| Declaration "deontic_token list"
| Delegation "deontic_token list" (dlg_token_type: delegated_token)
    (token_name: string) (agent: "community_role option")
and action =
  Action (act_name: string) (act_parameters: "parameter list") (act_guard: "guard option")
    (trigger_event: "event option") (variant: action_variant)
and community_role =
  CommunityRole (role_name: string) (role_description: "string option")
    (role_actions: "action list") (role_tokens: "deontic_token list")

record property =
  prop_name :: string
  prop_type_hint :: string

record artifact =
  art_name :: string
  art_parties :: "community_role pyseq"
  art_properties :: "property pyseq"

record party =
  party_name :: string
  fulfills_roles :: "community_role list"
  active_tokens :: "deontic_token list"

subsection \<open>Equality of dataclasses\<close>

text \<open>
  Python's \<^verbatim>\<open>==\<close> on a dataclass compares the classes and then the fields, so it is
  the equality of the values above, with one exception: \<^verbatim>\<open>DelegatedToken\<close> is an
  \<^verbatim>\<open>Enum\<close> under the \<^verbatim>\<open>@dataclass\<close> decorator, which gives it an \<^verbatim>\<open>__eq__\<close> over
  its (empty) list of fields, so that its two members compare equal. The functions
  below replace every \<^verbatim>\<open>token_type\<close> of a delegation by one member; two roles,
  parties or artifacts are equal for Python when their images are the same.
\<close>

primrec norm_token :: "deontic_token \<Rightarrow> deontic_token"
  and norm_call :: "action_call \<Rightarrow> action_call"
  and norm_variant :: "action_variant \<Rightarrow> action_variant"
  and norm_action :: "action \<Rightarrow> action"
  and norm_role :: "community_role \<Rightarrow> community_role"
where
  "norm_token (DeonticToken c ty n ps ar g1 tr fe g2) =
     DeonticToken c ty n ps (map_option norm_role ar) g1 tr fe g2"
| "norm_call (ActionCall r a args) = ActionCall (norm_role r) a args"
| "norm_variant (BasicAction rt cs) = BasicAction rt (map norm_call cs)"
| "norm_variant (SpeechAct ts) = SpeechAct (map norm_token ts)"
| "norm_variant (Authorization ts) = Authorization (map norm_token ts)"
| "norm_variant (Declaration ts) = Declaration (map norm_token ts)"
| "norm_variant (Delegation ts tt tn ag) =
     Delegation (map norm_token ts) DELEGATED_PERMIT tn (map_option norm_role ag)"
| "norm_action (Action n ps g te v) = Action n ps g te (norm_variant v)"
| "norm_role (CommunityRole n d acts ts) =
     CommunityRole n d (map norm_action acts) (map norm_token ts)"

definition party_eq :: "party \<Rightarrow> party \<Rightarrow> bool" where
  "party_eq p q =
     (party_name p = party_name q
      \<and> map norm_role (fulfills_roles p) = map norm_role (fulfills_roles q)
      \<and> map norm_token (active_tokens p) = map norm_token (active_tokens q))"

definition artifact_eq :: "artifact \<Rightarrow> artifact \<Rightarrow> bool" where
  "artifact_eq a b =
     (art_name a = art_name b
      \<and> map_pyseq norm_role (art_parties a) = map_pyseq norm_role (art_parties b)
      \<and> art_properties a = art_properties b)"

subsection \<open>Policies\<close>

datatype policy_value =
  Duration real string
| NumberInterval real real
| PNumber real
| PString string
| PBool bool

record envelope_rule =
  er_type :: string
  er_values :: "policy_value list"

record policy =
  pol_name :: string
  pol_type :: string
  setting_behaviour :: string
  initial_value :: policy_value
  envelope :: "envelope_rule list"

text \<open>\<^verbatim>\<open>Rule = Union[Policy, PolicyEnvelope, PolicyValue]\<close>\<close>

datatype rule =
  RulePolicy policy
| RuleEnvelope "envelope_rule list"
| RuleValue policy_value

subsection \<open>Community and model\<close>

text \<open>
  A Python \<^verbatim>\<open>dict\<close> is an association list in insertion order, with one pair per
  key: \<^const>\<open>map_of\<close> reads it, \<^const>\<open>AList.update\<close> stores a key (in place when
  present, at the end otherwise) and \<^const>\<open>AList.delete\<close> removes it. The three
  private indexes of a community are fields of the record; the \<^verbatim>\<open>imports\<close> list,
  which neither the index construction nor the engine reads, is left out.
\<close>

record community =
  com_name :: string
  contract :: "string option"
  objective :: string
  com_events :: "event list"
  com_artifacts :: "artifact list"
  com_roles :: "community_role list"
  com_rules :: "rule list"
  role_index :: "(string \<times> community_role) list"
  artifact_index :: "(string \<times> artifact) list"
  event_index :: "(string \<times> event) list"

record model =
  simple_types :: "string list"
  communities :: "community list"

section \<open>Evaluation of event expressions\<close>

text \<open>
  \<^verbatim>\<open>x in occurred\<close> on a set of events hashes \<^verbatim>\<open>x\<close> first: an event that cannot be
  hashed raises \<^verbatim>\<open>TypeError\<close>, whatever the set holds; \<^verbatim>\<open>None\<close> can be hashed and
  is no event. The set is kept as the list of its elements.
\<close>

definition py_in :: "event \<Rightarrow> event list \<Rightarrow> pyerror + bool" where
  "py_in e occurred = (if hashable e then Inr (e \<in> set occurred) else Inl TypeError)"

fun is_leaf :: "event_expression \<Rightarrow> bool" where
  "is_leaf (EventExpression None [OpEvent e]) = True"
| "is_leaf _ = False"

text \<open>
  \<^verbatim>\<open>EventExpression.evaluate\<close>. \<^verbatim>\<open>all\<close> and \<^verbatim>\<open>any\<close> consume their generator from
  the left and stop at the first operand that decides, so an operand behind it is
  never evaluated.
\<close>

fun evaluate :: "event_expression \<Rightarrow> event list \<Rightarrow> pyerror + bool"
  and evaluate_operand :: "operand \<Rightarrow> event list \<Rightarrow> pyerror + bool"
  and evaluate_all :: "operand list \<Rightarrow> event list \<Rightarrow> pyerror + bool"
  and evaluate_any :: "operand list \<Rightarrow> event list \<Rightarrow> pyerror + bool"
where
  "evaluate (EventExpression opr opnds) occurred =
     (case (opr, opnds) of
        (None, [OpEvent e]) \<Rightarrow> py_in e occurred
      | _ \<Rightarrow>
        if opr = Some ''AND'' then evaluate_all opnds occurred
        else if opr = Some ''OR'' then evaluate_any opnds occurred
        else Inr False)"
| "evaluate_operand (OpExpr x) occurred = evaluate x occurred"
| "evaluate_operand (OpEvent e) occurred = py_in e occurred"
| "evaluate_operand OpNone occurred = Inr False"
| "evaluate_all [] occurred = Inr True"
| "evaluate_all (x # xs) occurred =
     (case evaluate_operand x occurred of
        Inl err \<Rightarrow> Inl err
      | Inr b \<Rightarrow> if b then evaluate_all xs occurred else Inr False)"
| "evaluate_any [] occurred = Inr False"
| "evaluate_any (x # xs) occurred =
     (case evaluate_operand x occurred of
        Inl err \<Rightarrow> Inl err
      | Inr b \<Rightarrow> if b then Inr True else evaluate_any xs occurred)"

section \<open>Runtime state (package runtime)\<close>

text \<open>
  Keyword arguments and artifact properties hold Python objects of any class. The
  values the engine and its driver put there are \<^verbatim>\<open>None\<close>, booleans, integers,
  strings, parties and artifact instances.
\<close>

datatype pvalue =
  VNone | VBool bool | VInt int | VStr string | VParty party | VArt artifact_instance
and artifact_instance =
  ArtifactInstance (instance_id: string) (template: artifact)
    (properties: "(string \<times> pvalue) list")

type_synonym kwargs = "(string \<times> pvalue) list"

text \<open>\<^verbatim>\<open>d.get(k)\<close> on a dict of values: \<^verbatim>\<open>None\<close> when the key is absent.\<close>

definition dict_get :: "kwargs \<Rightarrow> string \<Rightarrow> pvalue" where
  "dict_get d k = (case map_of d k of None \<Rightarrow> VNone | Some v \<Rightarrow> v)"

text \<open>Truth value of an object, as \<^verbatim>\<open>if x\<close> and \<^verbatim>\<open>not x\<close> test it.\<close>

fun truthy :: "pvalue \<Rightarrow> bool" where
  "truthy VNone = False"
| "truthy (VBool b) = b"
| "truthy (VInt i) = (i \<noteq> 0)"
| "truthy (VStr s) = (s \<noteq> [])"
| "truthy (VParty p) = True"
| "truthy (VArt a) = True"

text \<open>
  Python's \<^verbatim>\<open>==\<close> on these values. A boolean equals the integer 0 or 1; parties and
  artifact templates compare as dataclasses; two artifact instances are equal when
  their ids and templates are and their property dicts have the same number of keys
  and agree on each key, whatever the insertion order.
\<close>

fun py_eq :: "pvalue \<Rightarrow> pvalue \<Rightarrow> bool"
  and art_eq :: "artifact_instance \<Rightarrow> artifact_instance \<Rightarrow> bool"
  and dict_sub :: "(string \<times> pvalue) list \<Rightarrow> (string \<times> pvalue) list \<Rightarrow> bool"
where
  "py_eq VNone w = (w = VNone)"
| "py_eq (VBool b) w =
     (case w of VBool c \<Rightarrow> b = c | VInt j \<Rightarrow> j = (if b then 1 else 0) | _ \<Rightarrow> False)"
| "py_eq (VInt i) w =
     (case w of VBool c \<Rightarrow> i = (if c then 1 else 0) | VInt j \<Rightarrow> i = j | _ \<Rightarrow> False)"
| "py_eq (VStr s) w = (w = VStr s)"
| "py_eq (VParty p) w = (case w of VParty q \<Rightarrow> party_eq p q | _ \<Rightarrow> False)"
| "py_eq (VArt a) w = (case w of VArt b \<Rightarrow> art_eq a b | _ \<Rightarrow> False)"
| "art_eq (ArtifactInstance i t ps) b =
     (i = instance_id b \<and> artifact_eq t (template b) \<and>
      length ps = length (properties b) \<and> dict_sub ps (properties b))"
| "dict_sub [] d = True"
| "dict_sub ((k, v) # ps) d =
     ((case map_of d k of None \<Rightarrow> False | Some w \<Rightarrow> py_eq v w) \<and> dict_sub ps d)"

datatype deontic_token_state = INACTIVE | ACTIVE | DISCHARGED

record deontic_token_instance =
  tok_template :: deontic_token
  owner :: party
  tok_instance_id :: string
  state :: deontic_token_state
  tok_context :: kwargs

subsection \<open>Lookups on the static model\<close>

text \<open>\<^verbatim>\<open>CommunityRole.get_action\<close>: the first action of that name.\<close>

definition role_get_action :: "community_role \<Rightarrow> string \<Rightarrow> action option" where
  "role_get_action r action_name = find (\<lambda>a. act_name a = action_name) (role_actions r)"

text \<open>\<^verbatim>\<open>Party.get_action\<close>: the roles are scanned in order.\<close>

fun get_action_roles :: "community_role list \<Rightarrow> string \<Rightarrow> action option" where
  "get_action_roles [] action_name = None"
| "get_action_roles (r # rs) action_name =
     (case role_get_action r action_name of
        Some a \<Rightarrow> Some a
      | None \<Rightarrow> get_action_roles rs action_name)"

definition get_action :: "party \<Rightarrow> string \<Rightarrow> action option" where
  "get_action p action_name = get_action_roles (fulfills_roles p) action_name"

definition has_role :: "party \<Rightarrow> string \<Rightarrow> bool" where
  "has_role p rn = (\<exists>r \<in> set (fulfills_roles p). role_name r = rn)"

definition get_role :: "community \<Rightarrow> string \<Rightarrow> community_role option" where
  "get_role c n = map_of (role_index c) n"

definition get_artifact :: "community \<Rightarrow> string \<Rightarrow> artifact option" where
  "get_artifact c n = map_of (artifact_index c) n"

definition get_event :: "community \<Rightarrow> string \<Rightarrow> event option" where
  "get_event c n = map_of (event_index c) n"

text \<open>
  \<^verbatim>\<open>isinstance(action, SpeechAct)\<close> with the inherited \<^verbatim>\<open>tokens\<close> field, and
  \<^verbatim>\<open>isinstance(action, Delegation)\<close>.
\<close>

fun speech_act_tokens :: "action_variant \<Rightarrow> deontic_token list option" where
  "speech_act_tokens (BasicAction rt cs) = None"
| "speech_act_tokens (SpeechAct ts) = Some ts"
| "speech_act_tokens (Authorization ts) = Some ts"
| "speech_act_tokens (Declaration ts) = Some ts"
| "speech_act_tokens (Delegation ts tt tn ag) = Some ts"

fun is_delegation :: "action_variant \<Rightarrow> bool" where
  "is_delegation (Delegation ts tt tn ag) = True"
| "is_delegation _ = False"

subsection \<open>Index construction\<close>

text \<open>
  \<^verbatim>\<open>Community.build_indexes\<close>: each loop stores the elements under their names and
  raises \<^verbatim>\<open>ValueError\<close> at the first name already stored.
\<close>

fun index_by :: "('a \<Rightarrow> string) \<Rightarrow> 'a list \<Rightarrow> (string \<times> 'a) list \<Rightarrow> pyerror + (string \<times> 'a) list" where
  "index_by nm [] idx = Inr idx"
| "index_by nm (x # xs) idx =
     (if nm x \<in> fst ` set idx then Inl ValueError
      else index_by nm xs (AList.update (nm x) x idx))"

definition build_indexes :: "community \<Rightarrow> pyerror + community" where
  "build_indexes c =
     (case index_by role_name (com_roles c) [] of
        Inl e \<Rightarrow> Inl e
      | Inr ri \<Rightarrow>
        (case index_by art_name (com_artifacts c) [] of
           Inl e \<Rightarrow> Inl e
         | Inr ai \<Rightarrow>
           (case index_by ev_name (com_events c) [] of
              Inl e \<Rightarrow> Inl e
            | Inr ei \<Rightarrow>
                Inr (c\<lparr>role_index := ri, artifact_index := ai, event_index := ei\<rparr>))))"

subsection \<open>The trace\<close>

text \<open>
  A \<^verbatim>\<open>LogEntry\<close> without its timestamp: the constructor is the \<^verbatim>\<open>event_type\<close>, its
  arguments are the values of the \<^verbatim>\<open>details\<close> dict in the order the tracer writes
  them. An \<^verbatim>\<open>ACTION\<close> entry keeps each argument itself where the tracer keeps its
  \<^verbatim>\<open>repr\<close>, which is a function of the argument.
\<close>

datatype log_entry =
  ACTION party string kwargs
| ACTION_PROHIBITED party string string
| TOKEN_CREATE string string party
| TOKEN_STATE_CHANGE string string party deontic_token_state string

definition log_action :: "party \<Rightarrow> action \<Rightarrow> kwargs \<Rightarrow> log_entry list \<Rightarrow> log_entry list" where
  "log_action p a args h = h @ [ACTION p (act_name a) args]"

definition log_action_prohibited :: "party \<Rightarrow> string \<Rightarrow> string \<Rightarrow> log_entry list \<Rightarrow> log_entry list" where
  "log_action_prohibited p action_name reason h = h @ [ACTION_PROHIBITED p action_name reason]"

definition log_token_creation :: "deontic_token_instance \<Rightarrow> log_entry list \<Rightarrow> log_entry list" where
  "log_token_creation t h =
     h @ [TOKEN_CREATE (tok_instance_id t) (tok_name (tok_template t)) (owner t)]"

definition log_token_state_change :: "deontic_token_instance \<Rightarrow> string \<Rightarrow> log_entry list \<Rightarrow> log_entry list" where
  "log_token_state_change t trigger h =
     h @ [TOKEN_STATE_CHANGE (tok_instance_id t) (tok_name (tok_template t)) (owner t)
            (state t) trigger]"

subsection \<open>The engine\<close>

record engine =
  model :: model
  parties :: "(string \<times> party) list"
  artifacts :: "(string \<times> artifact_instance) list"
  tokens :: "deontic_token_instance list"
  history :: "log_entry list"
  policy_values :: "(string \<times> policy_value) list"

text \<open>
  A call of the driver API either returns (always \<^verbatim>\<open>None\<close>) or lets an exception
  escape; in both cases the engine keeps the state it had reached.
\<close>

datatype outcome = Returned | Raised pyerror

text \<open>\<^verbatim>\<open>Engine.__init__\<close>: the dict comprehension stores the policies in order.\<close>

fun policy_entries :: "rule list \<Rightarrow> (string \<times> policy_value) list" where
  "policy_entries [] = []"
| "policy_entries (RulePolicy p # rs) = (pol_name p, initial_value p) # policy_entries rs"
| "policy_entries (r # rs) = policy_entries rs"

definition dict_merge :: "(string \<times> 'v) list \<Rightarrow> (string \<times> 'v) list \<Rightarrow> (string \<times> 'v) list" where
  "dict_merge d new = foldl (\<lambda>acc (k, v). AList.update k v acc) d new"

definition init_policy_values :: "model \<Rightarrow> (string \<times> policy_value) list" where
  "init_policy_values m =
     dict_merge [] (concat (map (\<lambda>c. policy_entries (com_rules c)) (communities m)))"

definition Engine :: "model \<Rightarrow> engine" where
  "Engine m = \<lparr>model = m, parties = [], artifacts = [], tokens = [], history = [],
               policy_values = init_policy_values m\<rparr>"

text \<open>
  \<^verbatim>\<open>Engine.create_party\<close>. The list comprehension reads \<^verbatim>\<open>communities[0]\<close> once per
  role name, so an empty list of names never touches it; \<^verbatim>\<open>all(roles)\<close> fails on a
  name the index does not know.
\<close>

definition create_party :: "string \<Rightarrow> string list \<Rightarrow> engine \<Rightarrow> engine \<times> outcome" where
  "create_party name role_names s =
     (if name \<in> fst ` set (parties s) then (s, Returned)
      else if role_names \<noteq> [] \<and> communities (model s) = [] then (s, Raised IndexError)
      else
        let rs = map (get_role (hd (communities (model s)))) role_names in
        if None \<in> set rs then (s, Returned)
        else
          (s\<lparr>parties := AList.update name
                \<lparr>party_name = name, fulfills_roles = map the rs, active_tokens = []\<rparr>
                (parties s)\<rparr>, Returned))"

text \<open>
  \<^verbatim>\<open>Engine.create_artifact_instance(self, artifact_type, instance_id, **properties)\<close>.
  A property called like one of the three parameters cannot be passed: Python raises
  \<^verbatim>\<open>TypeError\<close> at the call.
\<close>

definition create_artifact_instance :: "string \<Rightarrow> string \<Rightarrow> kwargs \<Rightarrow> engine \<Rightarrow> engine \<times> outcome" where
  "create_artifact_instance artifact_type iid props s =
     (if fst ` set props \<inter> {''self'', ''artifact_type'', ''instance_id''} \<noteq> {}
      then (s, Raised TypeError)
      else if iid \<in> fst ` set (artifacts s) then (s, Returned)
      else
        (case communities (model s) of
           [] \<Rightarrow> (s, Raised IndexError)
         | c # _ \<Rightarrow>
           (case get_artifact c artifact_type of
              None \<Rightarrow> (s, Returned)
            | Some tmpl \<Rightarrow>
                (s\<lparr>artifacts := AList.update iid (ArtifactInstance iid tmpl props) (artifacts s)\<rparr>,
                 Returned))))"

subsection \<open>Guards\<close>

text \<open>
  The guard context binds names to policy values, to the two domain functions and to
  Python values. \<^verbatim>\<open>getattr(art, n, default)\<close> on an artifact instance, for a name
  that is not one of its three fields, reads the property of that name.
\<close>

datatype binding = BPolicy policy_value | BFun "pvalue \<Rightarrow> pvalue" | BVal pvalue

definition getattr_default :: "artifact_instance \<Rightarrow> string \<Rightarrow> pvalue \<Rightarrow> pvalue" where
  "getattr_default a n d = (case map_of (properties a) n of None \<Rightarrow> d | Some v \<Rightarrow> v)"

definition loan_count :: "engine \<Rightarrow> pvalue \<Rightarrow> pvalue" where
  "loan_count s p =
     VInt (int (length (filter
       (\<lambda>art. art_name (template art) = ''Loan'' \<and> py_eq (getattr_default art ''borrower'' VNone) p)
       (map snd (artifacts s)))))"

definition has_unpaid_fines :: "engine \<Rightarrow> pvalue \<Rightarrow> pvalue" where
  "has_unpaid_fines s p =
     VBool (\<exists>art \<in> set (map snd (artifacts s)).
       art_name (template art) = ''Fine''
       \<and> py_eq (getattr_default art ''borrower'' VNone) p
       \<and> \<not> truthy (getattr_default art ''isPaid'' (VBool True)))"

definition get_domain_functions :: "engine \<Rightarrow> (string \<times> binding) list" where
  "get_domain_functions s =
     [(''loanCount'', BFun (loan_count s)), (''hasUnpaidFines'', BFun (has_unpaid_fines s))]"

definition guard_context :: "engine \<Rightarrow> party \<Rightarrow> kwargs \<Rightarrow> (string \<times> binding) list" where
  "guard_context s p kw =
     dict_merge
       (dict_merge
          (dict_merge (map (\<lambda>(k, v). (k, BPolicy v)) (policy_values s)) (get_domain_functions s))
          [(''self'', BVal (VParty p))])
       (map (\<lambda>(k, v). (k, BVal v)) kw)"

text \<open>
  \<^verbatim>\<open>Guard.evaluate\<close> hands the raw string to Python's \<^verbatim>\<open>eval\<close>. The expression
  language is not part of the repository, so the evaluator is a parameter of the
  model: it tells whether \<^verbatim>\<open>bool(eval(raw, context))\<close> is true, is false, raises an
  \<^verbatim>\<open>Exception\<close>, or raises an exception outside that class (\<^verbatim>\<open>SystemExit\<close>, which
  \<^verbatim>\<open>exit()\<close> raises). \<^verbatim>\<open>except Exception\<close> catches the first kind only. The
  expression is taken to have no effect on the engine, as the engine's own domain
  functions have none.
\<close>

datatype eval_result = Truthy | Falsy | RaisesException | RaisesSystemExit

type_synonym evaluator = "string \<Rightarrow> (string \<times> binding) list \<Rightarrow> eval_result"

definition guard_evaluate :: "evaluator \<Rightarrow> guard \<Rightarrow> (string \<times> binding) list \<Rightarrow> pyerror + bool" where
  "guard_evaluate py_eval g ctx =
     (case py_eval (raw g) ctx of
        Truthy \<Rightarrow> Inr True
      | Falsy \<Rightarrow> Inr False
      | RaisesException \<Rightarrow> Inr False
      | RaisesSystemExit \<Rightarrow> Inl SystemExit)"

subsection \<open>Token owner\<close>

text \<open>\<^verbatim>\<open>Engine._resolve_token_owner\<close>: the inner loop over the properties of an artifact.\<close>

fun scan_properties :: "string \<Rightarrow> pvalue list \<Rightarrow> party option" where
  "scan_properties rn [] = None"
| "scan_properties rn (VParty p # vs) =
     (if has_role p rn then Some p else scan_properties rn vs)"
| "scan_properties rn (v # vs) = scan_properties rn vs"

text \<open>The outer loop over the values of the keyword arguments.\<close>

fun scan_args :: "string \<Rightarrow> pvalue list \<Rightarrow> party option" where
  "scan_args rn [] = None"
| "scan_args rn (VParty p # vs) = (if has_role p rn then Some p else scan_args rn vs)"
| "scan_args rn (VArt a # vs) =
     (case scan_properties rn (map snd (properties a)) of
        Some p \<Rightarrow> Some p
      | None \<Rightarrow> scan_args rn vs)"
| "scan_args rn (v # vs) = scan_args rn vs"

definition resolve_token_owner :: "deontic_token \<Rightarrow> party \<Rightarrow> kwargs \<Rightarrow> party" where
  "resolve_token_owner token_template performer action_args =
     (case affected_role token_template of
        None \<Rightarrow> performer
      | Some r \<Rightarrow>
        (case scan_args (role_name r) (map snd action_args) of
           Some p \<Rightarrow> p
         | None \<Rightarrow> performer))"

subsection \<open>Random identifiers\<close>

text \<open>
  \<^verbatim>\<open>uuid.uuid4().hex[:6]\<close> is drawn at two places: once for the artifact a built-in
  action creates, and once for every token instance (the \<^verbatim>\<open>default_factory\<close> of
  \<^verbatim>\<open>instance_id\<close>). A call of \<^verbatim>\<open>perform_action\<close> receives what these draws return:
  \<open>art_hex\<close> for the artifact and \<open>tok_hex k\<close> for the \<open>k\<close>-th token it mints.
\<close>

record uuid_draws =
  art_hex :: string
  tok_hex :: "nat \<Rightarrow> string"

subsection \<open>Built-in side effects\<close>

text \<open>
  The \<^verbatim>\<open>if/elif\<close> chain on \<^verbatim>\<open>action.name\<close> in \<^verbatim>\<open>perform_action\<close>. It returns the
  engine and the keyword arguments as updated, or the exception raised: by
  \<^verbatim>\<open>self.artifacts[loan_id]\<close> when no artifact was stored under the new id, by
  \<^verbatim>\<open>loan.instance_id\<close> or \<^verbatim>\<open>loan.borrower\<close> when the object has no such attribute.
  No branch changes the engine before it raises.
\<close>

definition create_and_bind :: "string \<Rightarrow> string \<Rightarrow> kwargs \<Rightarrow> string \<Rightarrow> kwargs \<Rightarrow> engine \<Rightarrow> pyerror + (engine \<times> kwargs)" where
  "create_and_bind artifact_type iid props key kw s =
     (case create_artifact_instance artifact_type iid props s of
        (s', Raised e) \<Rightarrow> Inl e
      | (s', Returned) \<Rightarrow>
        (case map_of (artifacts s') iid of
           None \<Rightarrow> Inl KeyError
         | Some a \<Rightarrow> Inr (s', AList.update key (VArt a) kw)))"

definition apply_builtin :: "uuid_draws \<Rightarrow> action \<Rightarrow> party \<Rightarrow> kwargs \<Rightarrow> engine \<Rightarrow> pyerror + (engine \<times> kwargs)" where
  "apply_builtin rnd a p kw s =
     (if act_name a = ''borrowItem'' then
        create_and_bind ''Loan'' (''loan-'' @ art_hex rnd)
          [(''item'', dict_get kw ''item''), (''borrower'', VParty p), (''isOverdue'', VBool False)]
          ''loan'' kw s
      else if act_name a = ''returnItem'' then
        (let loan = dict_get kw ''loan'' in
         if \<not> truthy loan then Inr (s, kw)
         else
           (case loan of
              VArt l \<Rightarrow>
                if instance_id l \<in> fst ` set (artifacts s)
                then Inr (s\<lparr>artifacts := AList.delete (instance_id l) (artifacts s)\<rparr>, kw)
                else Inr (s, kw)
            | _ \<Rightarrow> Inl AttributeError))
      else if act_name a = ''fineBorrower'' then
        (case dict_get kw ''loan'' of
           VArt l \<Rightarrow>
             (case map_of (properties l) ''borrower'' of
                None \<Rightarrow> Inl AttributeError
              | Some b \<Rightarrow>
                  create_and_bind ''Fine'' (''fine-'' @ art_hex rnd)
                    [(''borrower'', b), (''loan'', VArt l), (''amount'', VInt 500),
                     (''isPaid'', VBool False)]
                    ''fine'' kw s)
         | _ \<Rightarrow> Inl AttributeError)
      else Inr (s, kw))"

subsection \<open>Delegation\<close>

text \<open>
  The test \<^verbatim>\<open>not new_owner or not new_owner.has_role(action.agent.name)\<close> and the
  branch it guards. A false \<^verbatim>\<open>new_owner\<close> enters the branch, whose log message
  reads \<^verbatim>\<open>new_owner.name\<close>; an object that is no party has no method
  \<^verbatim>\<open>has_role\<close> (an artifact instance with a property of that name yields a value that
  cannot be called); a delegation whose \<^verbatim>\<open>agent\<close> is \<^verbatim>\<open>None\<close> has no \<^verbatim>\<open>.name\<close>. The
  result is the exception, or \<open>None\<close> when the branch logs and returns, or the
  recipient.
\<close>

definition check_recipient :: "pvalue \<Rightarrow> community_role option \<Rightarrow> pyerror + party option" where
  "check_recipient new_owner ag =
     (if \<not> truthy new_owner then Inl AttributeError
      else
        (case new_owner of
           VParty q \<Rightarrow>
             (case ag of
                None \<Rightarrow> Inl AttributeError
              | Some r \<Rightarrow> if has_role q (role_name r) then Inr (Some q) else Inr None)
         | VArt a \<Rightarrow>
             (case map_of (properties a) ''has_role'' of
                None \<Rightarrow> Inl AttributeError
              | Some f \<Rightarrow> (case ag of None \<Rightarrow> Inl AttributeError | Some r \<Rightarrow> Inl TypeError))
         | _ \<Rightarrow> Inl AttributeError))"

text \<open>The search loop with its \<^verbatim>\<open>break\<close>: the position of the first match.\<close>

fun find_index :: "('a \<Rightarrow> bool) \<Rightarrow> 'a list \<Rightarrow> nat option" where
  "find_index P [] = None"
| "find_index P (x # xs) =
     (if P x then Some 0 else map_option Suc (find_index P xs))"

definition delegable :: "party \<Rightarrow> string \<Rightarrow> pvalue \<Rightarrow> deontic_token_instance \<Rightarrow> bool" where
  "delegable p tname loan_context t =
     (party_eq (owner t) p \<and> tok_name (tok_template t) = tname \<and> state t = ACTIVE
      \<and> py_eq (dict_get (tok_context t) ''loan'') loan_context)"

text \<open>
  The block under \<^verbatim>\<open>isinstance(action, behavior.Delegation)\<close>. The second component
  is \<open>Some\<close> when the block leaves \<^verbatim>\<open>perform_action\<close> (by \<^verbatim>\<open>return\<close> or by an
  exception) and \<open>None\<close> when control goes on to the next block.
\<close>

definition perform_delegation :: "action \<Rightarrow> party \<Rightarrow> kwargs \<Rightarrow> engine \<Rightarrow> engine \<times> outcome option" where
  "perform_delegation a p kw s =
     (case variant a of
        Delegation ts tt tname ag \<Rightarrow>
          (case check_recipient (dict_get kw ''agent'') ag of
             Inl e \<Rightarrow> (s, Some (Raised e))
           | Inr None \<Rightarrow> (s, Some Returned)
           | Inr (Some q) \<Rightarrow>
             (case find_index (delegable p tname (dict_get kw ''loan'')) (tokens s) of
                None \<Rightarrow> (s, None)
              | Some i \<Rightarrow>
                  let t = (tokens s ! i)\<lparr>owner := q\<rparr> in
                  (s\<lparr>tokens := (tokens s)[i := t],
                     history := log_token_state_change t (''delegated via '' @ act_name a) (history s)\<rparr>,
                   None)))
      | _ \<Rightarrow> (s, None))"

subsection \<open>Minting and events\<close>

text \<open>
  The loop over \<^verbatim>\<open>action.tokens\<close>. \<^verbatim>\<open>DeonticTokenInstance(template=..., owner=...,
  context=kwargs)\<close> leaves \<^verbatim>\<open>state\<close> at its default, \<^verbatim>\<open>DeonticTokenState.INACTIVE\<close>.
\<close>

definition new_token :: "deontic_token \<Rightarrow> party \<Rightarrow> string \<Rightarrow> kwargs \<Rightarrow> deontic_token_instance" where
  "new_token token_template own hex kw =
     \<lparr>tok_template = token_template, owner = own, tok_instance_id = ''token-'' @ hex,
      state = INACTIVE, tok_context = kw\<rparr>"

fun mint_tokens :: "(nat \<Rightarrow> string) \<Rightarrow> nat \<Rightarrow> party \<Rightarrow> kwargs \<Rightarrow> deontic_token list \<Rightarrow> engine \<Rightarrow> engine" where
  "mint_tokens hex k p kw [] s = s"
| "mint_tokens hex k p kw (token_template # rest) s =
     (let t = new_token token_template (resolve_token_owner token_template p kw) (hex k) kw
      in mint_tokens hex (Suc k) p kw rest
           (s\<lparr>tokens := tokens s @ [t], history := log_token_creation t (history s)\<rparr>))"

text \<open>
  \<^verbatim>\<open>Engine._fire_event\<close>: the body of the loop for one token. It gives the token as
  it leaves the iteration and the entries the iteration logs, or the \<^verbatim>\<open>TypeError\<close>
  of a finish expression that reaches an event it cannot hash.
\<close>

definition fire_token :: "event \<Rightarrow> deontic_token_instance \<Rightarrow> pyerror + deontic_token_instance \<times> log_entry list" where
  "fire_token ev t =
     (if state t = INACTIVE \<and> activation_trigger (tok_template t) = Some ev then
        (let t' = t\<lparr>state := ACTIVE\<rparr> in Inr (t', log_token_state_change t' (ev_name ev) []))
      else if state t = ACTIVE \<and> finish_expression (tok_template t) \<noteq> None then
        (case evaluate (the (finish_expression (tok_template t))) [ev] of
           Inl err \<Rightarrow> Inl err
         | Inr b \<Rightarrow>
             if b then
               (let t' = t\<lparr>state := DISCHARGED\<rparr>
                in Inr (t', log_token_state_change t' (ev_name ev) []))
             else Inr (t, []))
      else Inr (t, []))"

text \<open>
  The loop. When an iteration raises, the tokens before it have changed and their
  entries are logged; that token and the ones behind it are as they were.
\<close>

fun fire_loop :: "event \<Rightarrow> deontic_token_instance list \<Rightarrow> deontic_token_instance list \<times> log_entry list \<times> outcome" where
  "fire_loop ev [] = ([], [], Returned)"
| "fire_loop ev (t # ts) =
     (case fire_token ev t of
        Inl err \<Rightarrow> (t # ts, [], Raised err)
      | Inr (t', es) \<Rightarrow>
          (case fire_loop ev ts of (ts', es', out) \<Rightarrow> (t' # ts', es @ es', out)))"

text \<open>
  \<^verbatim>\<open>occurred_events = {event}\<close> hashes the event before the loop starts.
\<close>

definition fire_event :: "event \<Rightarrow> engine \<Rightarrow> engine \<times> outcome" where
  "fire_event ev s =
     (if \<not> hashable ev then (s, Raised TypeError)
      else
        (case fire_loop ev (tokens s) of
           (ts, es, out) \<Rightarrow> (s\<lparr>tokens := ts, history := history s @ es\<rparr>, out)))"

subsection \<open>Action dispatch\<close>

text \<open>
  The embargo screen: the first token that the party owns, that is active and whose
  template is an instance of \<^verbatim>\<open>Embargo\<close>.
\<close>

definition find_embargo :: "party \<Rightarrow> deontic_token_instance list \<Rightarrow> deontic_token_instance option" where
  "find_embargo p ts =
     find (\<lambda>t. party_eq (owner t) p \<and> state t = ACTIVE \<and> tok_class (tok_template t) = EmbargoClass) ts"

text \<open>
  The guard screen: \<open>Inr True\<close> when there is no guard or the guard holds, \<open>Inr False\<close>
  when it fails, \<open>Inl\<close> for the exception \<^verbatim>\<open>Guard.evaluate\<close> does not catch.
\<close>

definition guard_passes :: "evaluator \<Rightarrow> action \<Rightarrow> party \<Rightarrow> kwargs \<Rightarrow> engine \<Rightarrow> pyerror + bool" where
  "guard_passes py_eval a p kw s =
     (case act_guard a of
        None \<Rightarrow> Inr True
      | Some g \<Rightarrow> guard_evaluate py_eval g (guard_context s p kw))"

text \<open>
  The last two blocks of \<^verbatim>\<open>perform_action\<close>: tokens are minted for a speech act,
  then the trigger event is fired. \<^verbatim>\<open>self._fire_event(action.trigger_event, **kwargs)\<close>
  raises \<^verbatim>\<open>TypeError\<close> when a keyword argument is called \<^verbatim>\<open>event\<close> or \<^verbatim>\<open>self\<close>,
  the names of the method's own parameters.
\<close>

definition mint_phase :: "uuid_draws \<Rightarrow> action \<Rightarrow> party \<Rightarrow> kwargs \<Rightarrow> engine \<Rightarrow> engine" where
  "mint_phase rnd a p kw s =
     (case speech_act_tokens (variant a) of
        None \<Rightarrow> s
      | Some ts \<Rightarrow> mint_tokens (tok_hex rnd) 0 p kw ts s)"

definition fire_phase :: "action \<Rightarrow> kwargs \<Rightarrow> engine \<Rightarrow> engine \<times> outcome" where
  "fire_phase a kw s =
     (case trigger_event a of
        None \<Rightarrow> (s, Returned)
      | Some ev \<Rightarrow>
          if ''event'' \<in> fst ` set kw \<or> ''self'' \<in> fst ` set kw then (s, Raised TypeError)
          else fire_event ev s)"

text \<open>
  What \<^verbatim>\<open>perform_action\<close> does once the action is permitted: it logs the action,
  applies the built-in side effect, delegates, mints, fires.
\<close>

definition execute_action :: "uuid_draws \<Rightarrow> action \<Rightarrow> party \<Rightarrow> kwargs \<Rightarrow> engine \<Rightarrow> engine \<times> outcome" where
  "execute_action rnd a p kw s =
     (let s1 = s\<lparr>history := log_action p a kw (history s)\<rparr> in
      case apply_builtin rnd a p kw s1 of
        Inl e \<Rightarrow> (s1, Raised e)
      | Inr (s2, kw') \<Rightarrow>
        (case perform_delegation a p kw' s2 of
           (s3, Some out) \<Rightarrow> (s3, out)
         | (s3, None) \<Rightarrow> fire_phase a kw' (mint_phase rnd a p kw' s3)))"

text \<open>
  \<^verbatim>\<open>Engine.perform_action(self, party_name, action_name, **kwargs)\<close>. A keyword
  argument called like one of the three parameters cannot be passed: Python raises
  \<^verbatim>\<open>TypeError\<close> at the call.
\<close>

definition perform_action :: "evaluator \<Rightarrow> uuid_draws \<Rightarrow> string \<Rightarrow> string \<Rightarrow> kwargs \<Rightarrow> engine \<Rightarrow> engine \<times> outcome" where
  "perform_action py_eval rnd pname action_name kw s =
     (if fst ` set kw \<inter> {''self'', ''party_name'', ''action_name''} \<noteq> {}
      then (s, Raised TypeError)
      else
     (case map_of (parties s) pname of
        None \<Rightarrow> (s, Returned)
      | Some p \<Rightarrow>
        (case get_action p action_name of
           None \<Rightarrow> (s, Returned)
         | Some a \<Rightarrow>
           (case find_embargo p (tokens s) of
              Some t \<Rightarrow>
                (s\<lparr>history := log_action_prohibited p action_name
                     (''Active embargo '' @ [CHR 0x27] @ tok_name (tok_template t) @ [CHR 0x27])
                     (history s)\<rparr>, Returned)
            | None \<Rightarrow>
              (case guard_passes py_eval a p kw s of
                 Inl e \<Rightarrow> (s, Raised e)
               | Inr ok \<Rightarrow>
                   if \<not> ok then
                     (s\<lparr>history := log_action_prohibited p (act_name a)
                          (''Guard failed: '' @ raw (the (act_guard a))) (history s)\<rparr>, Returned)
                   else execute_action rnd a p kw s)))))"

text \<open>The driver's calls, and a script of them run until an exception escapes.\<close>

datatype call =
  CreateParty string "string list"
| CreateArtifactInstance string string kwargs
| PerformAction uuid_draws string string kwargs

fun step :: "evaluator \<Rightarrow> call \<Rightarrow> engine \<Rightarrow> engine \<times> outcome" where
  "step py_eval (CreateParty name role_names) s = create_party name role_names s"
| "step py_eval (CreateArtifactInstance artifact_type iid props) s =
     create_artifact_instance artifact_type iid props s"
| "step py_eval (PerformAction rnd pname action_name kw) s =
     perform_action py_eval rnd pname action_name kw s"

fun run :: "evaluator \<Rightarrow> call list \<Rightarrow> engine \<Rightarrow> engine \<times> outcome" where
  "run py_eval [] s = (s, Returned)"
| "run py_eval (c # cs) s =
     (case step py_eval c s of
        (s', Raised e) \<Rightarrow> (s', Raised e)
      | (s', Returned) \<Rightarrow> run py_eval cs s')"

section \<open>Properties of token states and of the trace\<close>

text \<open>One step, or none, along \<^verbatim>\<open>INACTIVE\<close>, \<^verbatim>\<open>ACTIVE\<close>, \<^verbatim>\<open>DISCHARGED\<close>.\<close>

definition advances :: "deontic_token_state \<Rightarrow> deontic_token_state \<Rightarrow> bool" where
  "advances a b = (b = a \<or> (a = INACTIVE \<and> b = ACTIVE) \<or> (a = ACTIVE \<and> b = DISCHARGED))"



fun is_prohibited :: "log_entry \<Rightarrow> bool" where
  "is_prohibited (ACTION_PROHIBITED q a r) = True"
| "is_prohibited _ = False"

fun is_token_create :: "log_entry \<Rightarrow> bool" where
  "is_token_create (TOKEN_CREATE i n q) = True"
| "is_token_create _ = False"


text \<open>
  The token as one iteration of the firing loop leaves it: as the iteration made it,
  or as it was when the iteration raises.
\<close>

definition fired :: "event \<Rightarrow> deontic_token_instance \<Rightarrow> deontic_token_instance" where
  "fired ev t = (case fire_token ev t of Inl err \<Rightarrow> t | Inr (t', es) \<Rightarrow> t')"

text \<open>The token instances the minting loop appends, in order.\<close>

fun minted :: "(nat \<Rightarrow> string) \<Rightarrow> nat \<Rightarrow> party \<Rightarrow> kwargs \<Rightarrow> deontic_token list \<Rightarrow> deontic_token_instance list" where
  "minted hex k p kw [] = []"
| "minted hex k p kw (token_template # rest) =
     new_token token_template (resolve_token_owner token_template p kw) (hex k) kw
       # minted hex (Suc k) p kw rest"

text \<open>
  The entries a call appends to the trace, and the calls that append no \<^verbatim>\<open>ACTION\<close>
  entry.
\<close>

definition appended :: "engine \<Rightarrow> engine \<Rightarrow> log_entry list" where
  "appended s s' = drop (length (history s)) (history s')"


section \<open>A library community\<close>

text \<open>
  A small instance of the library scenario the engine's driver plays: a borrower
  accepts a loan, which puts the burden \<^verbatim>\<open>return_item\<close> on her, and may delegate
  that burden to a proxy borrower.
\<close>

definition item_returned :: event where
  "item_returned = \<lparr>ev_name = ''itemReturned'', ev_artifacts = PyTuple []\<rparr>"

definition burden_delegated :: event where
  "burden_delegated = \<lparr>ev_name = ''burdenDelegated'', ev_artifacts = PyTuple []\<rparr>"

definition return_item :: deontic_token where
  "return_item = DeonticToken BurdenClass BURDEN ''return_item'' [] None None None
     (Some (EventExpression None [OpEvent item_returned])) None"

definition proxy_permit :: deontic_token where
  "proxy_permit = DeonticToken PermitClass PERMIT ''proxy_permit'' [] None None
     (Some burden_delegated) (Some (EventExpression None [OpEvent burden_delegated])) None"

definition no_borrowing :: deontic_token where
  "no_borrowing = DeonticToken EmbargoClass EMBARGO ''no_borrowing'' [] None None None None None"

definition accept_loan :: action where
  "accept_loan = Action ''acceptLoan'' [] None None (SpeechAct [return_item])"

definition renew_loan :: action where
  "renew_loan = Action ''renewLoan'' [] (Some \<lparr>raw = ''loanCount(self) < maxLoans''\<rparr>)
     (Some item_returned) (SpeechAct [return_item])"

definition proxy_return_item :: action where
  "proxy_return_item = Action ''proxy_return_item'' [] None (Some item_returned)
     (BasicAction None [])"

definition proxy_borrower :: community_role where
  "proxy_borrower = CommunityRole ''ProxyBorrower'' None [proxy_return_item] []"

definition return_item_delegation :: action where
  "return_item_delegation = Action ''return_item_delegation'' [] None (Some burden_delegated)
     (Delegation [] DELEGATED_BURDEN ''return_item'' (Some proxy_borrower))"

definition quiet_delegation :: action where
  "quiet_delegation = Action ''quiet_delegation'' [] None None
     (Delegation [] DELEGATED_BURDEN ''return_item'' (Some proxy_borrower))"

definition borrower :: community_role where
  "borrower = CommunityRole ''Borrower'' None
     [accept_loan, renew_loan, return_item_delegation, quiet_delegation] []"

text \<open>
  A librarian registers a loan by a declaration with two token templates, one without
  and one with an activation trigger, and closes the library by an action whose
  guard leaves the interpreter.
\<close>

definition register_loan :: action where
  "register_loan = Action ''registerLoan'' [] None None (Declaration [return_item, proxy_permit])"

definition close_library :: action where
  "close_library = Action ''closeLibrary'' [] (Some \<lparr>raw = ''exit()''\<rparr>) None (BasicAction None [])"

definition librarian :: community_role where
  "librarian = CommunityRole ''Librarian'' None [register_loan, close_library] []"

definition loan_artifact :: artifact where
  "loan_artifact = \<lparr>art_name = ''Loan'', art_parties = PyTuple [], art_properties = PyTuple []\<rparr>"

definition library :: community where
  "library = \<lparr>com_name = ''Library'', contract = None, objective = ''lending'',
     com_events = [item_returned, burden_delegated], com_artifacts = [loan_artifact],
     com_roles = [borrower, proxy_borrower, librarian], com_rules = [],
     role_index = [(''Borrower'', borrower), (''ProxyBorrower'', proxy_borrower),
       (''Librarian'', librarian)],
     artifact_index = [(''Loan'', loan_artifact)],
     event_index = [(''itemReturned'', item_returned), (''burdenDelegated'', burden_delegated)]\<rparr>"

definition alice :: party where
  "alice = \<lparr>party_name = ''Alice'', fulfills_roles = [borrower], active_tokens = []\<rparr>"

definition bob :: party where
  "bob = \<lparr>party_name = ''Bob'', fulfills_roles = [proxy_borrower], active_tokens = []\<rparr>"

definition carol :: party where
  "carol = \<lparr>party_name = ''Carol'', fulfills_roles = [borrower], active_tokens = []\<rparr>"

definition libby :: party where
  "libby = \<lparr>party_name = ''Libby'', fulfills_roles = [librarian], active_tokens = []\<rparr>"

definition the_loan :: artifact_instance where
  "the_loan = ArtifactInstance ''loan-1'' loan_artifact [(''isOverdue'', VBool False)]"

text \<open>
  Alice's active burden for the loan, a permit of Bob's that waits for a delegation,
  and an embargo on Carol.
\<close>

definition alice_burden :: deontic_token_instance where
  "alice_burden = \<lparr>tok_template = return_item, owner = alice, tok_instance_id = ''token-a1'',
     state = ACTIVE, tok_context = [(''loan'', VArt the_loan)]\<rparr>"

definition bob_permit :: deontic_token_instance where
  "bob_permit = \<lparr>tok_template = proxy_permit, owner = bob, tok_instance_id = ''token-b1'',
     state = INACTIVE, tok_context = []\<rparr>"

definition carol_embargo :: deontic_token_instance where
  "carol_embargo = \<lparr>tok_template = no_borrowing, owner = carol, tok_instance_id = ''token-c1'',
     state = ACTIVE, tok_context = []\<rparr>"

definition world :: engine where
  "world = \<lparr>model = \<lparr>simple_types = [], communities = [library]\<rparr>,
     parties = [(''Alice'', alice), (''Bob'', bob), (''Carol'', carol), (''Libby'', libby)],
     artifacts = [(''loan-1'', the_loan)],
     tokens = [alice_burden, bob_permit, carol_embargo],
     history = [],
     policy_values = []\<rparr>"

text \<open>
  An evaluator that gives every guard the same result, one that knows the guard
  \<^verbatim>\<open>exit()\<close>, and two sequences of draws that differ in the token identifiers.
\<close>

definition always :: "eval_result \<Rightarrow> evaluator" where
  "always r = (\<lambda>raw ctx. r)"

definition exit_eval :: evaluator where
  "exit_eval = (\<lambda>raw ctx. if raw = ''exit()'' then RaisesSystemExit else Truthy)"

definition draws_a :: uuid_draws where
  "draws_a = \<lparr>art_hex = ''00aa00'', tok_hex = (\<lambda>k. ''1111aa'')\<rparr>"

definition draws_b :: uuid_draws where
  "draws_b = \<lparr>art_hex = ''00aa00'', tok_hex = (\<lambda>k. ''2222bb'')\<rparr>"




text \<open>
  The library with two policies of one name, and the library with the role of the
  borrower listed twice.
\<close>

definition loan_period_short :: policy where
  "loan_period_short = \<lparr>pol_name = ''loanPeriod'', pol_type = ''Duration'',
     setting_behaviour = ''Librarian'', initial_value = Duration 14 ''days'', envelope = []\<rparr>"

definition loan_period_long :: policy where
  "loan_period_long = \<lparr>pol_name = ''loanPeriod'', pol_type = ''Duration'',
     setting_behaviour = ''Librarian'', initial_value = Duration 28 ''days'', envelope = []\<rparr>"

definition twin_policies :: community where
  "twin_policies = library\<lparr>com_rules := [RulePolicy loan_period_short, RulePolicy loan_period_long]\<rparr>"

definition twin_roles :: community where
  "twin_roles = library\<lparr>com_roles := [borrower, proxy_borrower, borrower]\<rparr>"

section \<open>Event firing\<close>

lemma fire_token_inactive:
  "state t = INACTIVE \<Longrightarrow> activation_trigger (tok_template t) = Some ev \<Longrightarrow>
   state (fired ev t) = ACTIVE"
  by (simp add: fired_def fire_token_def Let_def)

lemma fired_advances: "advances (state t) (state (fired ev t))"
  by (auto simp: fired_def fire_token_def advances_def Let_def split: sum.splits)

lemma fired_frame:
  "tok_template (fired ev t) = tok_template t"
  "owner (fired ev t) = owner t"
  "tok_instance_id (fired ev t) = tok_instance_id t"
  "tok_context (fired ev t) = tok_context t"
  by (auto simp: fired_def fire_token_def Let_def split: sum.splits)

lemma fired_not_discharged:
  "state t = INACTIVE \<Longrightarrow> state (fired ev t) \<noteq> DISCHARGED"
  by (auto simp: fired_def fire_token_def Let_def split: sum.splits)


lemma fire_loop_length: "length (fst (fire_loop ev ts)) = length ts"
  by (induction ts) (auto split: sum.splits prod.splits)

lemma fire_loop_nth:
  "i < length ts \<Longrightarrow>
   (fst (fire_loop ev ts) ! i = ts ! i \<or> fst (fire_loop ev ts) ! i = fired ev (ts ! i))
   \<and> (snd (snd (fire_loop ev ts)) = Returned \<longrightarrow> fst (fire_loop ev ts) ! i = fired ev (ts ! i))"
proof (induction ts arbitrary: i)
  case Nil
  then show ?case by simp
next
  case (Cons t ts)
  show ?case
  proof (cases "fire_token ev t")
    case (Inl err)
    then show ?thesis by simp
  next
    case (Inr r)
    obtain t' es where r: "r = (t', es)" by (cases r)
    obtain ts' es' out where l: "fire_loop ev ts = (ts', es', out)" by (cases "fire_loop ev ts")
    have f: "fired ev t = t'" using Inr r by (simp add: fired_def)
    show ?thesis
    proof (cases i)
      case 0
      then show ?thesis using Inr r l f by simp
    next
      case (Suc j)
      with Cons.prems have "j < length ts" by simp
      from Cons.IH [OF this] l Suc Inr r show ?thesis by simp
    qed
  qed
qed


lemma fire_event_tokens:
  "tokens (fst (fire_event ev s)) = (if hashable ev then fst (fire_loop ev (tokens s)) else tokens s)"
  by (simp add: fire_event_def split: prod.splits)

lemma fire_event_returned:
  "snd (fire_event ev s) = Returned \<Longrightarrow> hashable ev \<and> snd (snd (fire_loop ev (tokens s))) = Returned"
  by (auto simp: fire_event_def split: prod.splits if_splits)

lemma fire_event_nth:
  assumes "i < length (tokens s)"
  shows "length (tokens (fst (fire_event ev s))) = length (tokens s)
    \<and> (tokens (fst (fire_event ev s)) ! i = tokens s ! i
        \<or> tokens (fst (fire_event ev s)) ! i = fired ev (tokens s ! i))
    \<and> (snd (fire_event ev s) = Returned \<longrightarrow>
          tokens (fst (fire_event ev s)) ! i = fired ev (tokens s ! i))
    \<and> advances (state (tokens s ! i)) (state (tokens (fst (fire_event ev s)) ! i))
    \<and> (state (tokens s ! i) = INACTIVE \<and> activation_trigger (tok_template (tokens s ! i)) = Some ev
        \<longrightarrow> state (tokens (fst (fire_event ev s)) ! i) \<noteq> DISCHARGED
          \<and> (snd (fire_event ev s) = Returned \<longrightarrow>
                state (tokens (fst (fire_event ev s)) ! i) = ACTIVE))"
proof -
  let ?t = "tokens s ! i" and ?t' = "tokens (fst (fire_event ev s)) ! i"
  have len: "length (tokens (fst (fire_event ev s))) = length (tokens s)"
    by (simp add: fire_event_tokens fire_loop_length)
  have alt: "?t' = ?t \<or> ?t' = fired ev ?t"
    using assms fire_loop_nth [of i "tokens s" ev] by (simp add: fire_event_tokens)
  have ret: "snd (fire_event ev s) = Returned \<longrightarrow> ?t' = fired ev ?t"
    using assms fire_loop_nth [of i "tokens s" ev] fire_event_returned [of ev s]
    by (auto simp: fire_event_tokens)
  have adv: "advances (state ?t) (state ?t')"
    using alt fired_advances [of ?t ev] by (auto simp: advances_def)
  have act: "state ?t = INACTIVE \<and> activation_trigger (tok_template ?t) = Some ev
        \<longrightarrow> state ?t' \<noteq> DISCHARGED \<and> (snd (fire_event ev s) = Returned \<longrightarrow> state ?t' = ACTIVE)"
    using alt ret fire_token_inactive [of ?t ev] fired_not_discharged [of ?t ev] by auto
  from len alt ret adv act show ?thesis by blast
qed

text \<open>
  Claim C10. Within one firing of an event every token instance changes state at most
  once. The loop of \<^verbatim>\<open>_fire_event\<close> leaves the list as long as it was; each token
  leaves the firing either as it was or as the one iteration for that token made it
  (as the iteration made it, when the firing returns), at most one step further along
  its life cycle. An inactive token whose activation trigger is the fired event is
  never \<^verbatim>\<open>DISCHARGED\<close> by that firing, also when its finish expression holds for
  the event (the discharge test is the \<^verbatim>\<open>elif\<close> branch), and it is \<^verbatim>\<open>ACTIVE\<close>
  when the firing returns. A firing that raises (the event, or an event of a finish
  expression, cannot be hashed) stops the loop and leaves the remaining tokens as
  they were.
\<close>

theorem fire_event_once:
  assumes "i < length (tokens s)"
  shows "length (tokens (fst (fire_event ev s))) = length (tokens s)
    \<and> (tokens (fst (fire_event ev s)) ! i = tokens s ! i
        \<or> tokens (fst (fire_event ev s)) ! i = fired ev (tokens s ! i))
    \<and> (snd (fire_event ev s) = Returned \<longrightarrow>
          tokens (fst (fire_event ev s)) ! i = fired ev (tokens s ! i))
    \<and> advances (state (tokens s ! i)) (state (tokens (fst (fire_event ev s)) ! i))
    \<and> (state (tokens s ! i) = INACTIVE \<and> activation_trigger (tok_template (tokens s ! i)) = Some ev
        \<longrightarrow> state (tokens (fst (fire_event ev s)) ! i) \<noteq> DISCHARGED
          \<and> (snd (fire_event ev s) = Returned \<longrightarrow>
                state (tokens (fst (fire_event ev s)) ! i) = ACTIVE))"
  using assms by (rule fire_event_nth)

theorem fire_event_once_witness:
  "(1::nat) < length (tokens world)
   \<and> state (tokens world ! 1) = INACTIVE
   \<and> activation_trigger (tok_template (tokens world ! 1)) = Some burden_delegated
   \<and> evaluate (the (finish_expression (tok_template (tokens world ! 1)))) [burden_delegated] = Inr True
   \<and> snd (fire_event burden_delegated world) = Returned
   \<and> state (tokens (fst (fire_event burden_delegated world)) ! 1) = ACTIVE"
proof -
  have h: "(1::nat) < length (tokens world)" by (simp add: world_def)
  have a: "state (tokens world ! 1) = INACTIVE
     \<and> activation_trigger (tok_template (tokens world ! 1)) = Some burden_delegated"
    by (simp add: world_def bob_permit_def proxy_permit_def)
  have e: "evaluate (the (finish_expression (tok_template (tokens world ! 1)))) [burden_delegated] = Inr True"
    by (simp add: world_def bob_permit_def proxy_permit_def py_in_def hashable_def burden_delegated_def)
  have r: "snd (fire_event burden_delegated world) = Returned"
    by (simp add: fire_event_def hashable_def burden_delegated_def world_def alice_burden_def
        bob_permit_def carol_embargo_def fire_token_def return_item_def proxy_permit_def
        no_borrowing_def item_returned_def py_in_def Let_def)
  from fire_event_once [OF h, of burden_delegated] a r
  have "state (tokens (fst (fire_event burden_delegated world)) ! 1) = ACTIVE" by blast
  with h a e r show ?thesis by blast
qed

section \<open>Minting\<close>

lemma mint_tokens_tokens:
  "tokens (mint_tokens hex k p kw ts s) = tokens s @ minted hex k p kw ts"
  by (induction ts arbitrary: k s) (simp_all add: Let_def)


lemma mint_tokens_frame:
  "parties (mint_tokens hex k p kw ts s) = parties s"
  "artifacts (mint_tokens hex k p kw ts s) = artifacts s"
  "model (mint_tokens hex k p kw ts s) = model s"
  "policy_values (mint_tokens hex k p kw ts s) = policy_values s"
  by (induction ts arbitrary: k s) (simp_all add: Let_def)

lemma mint_tokens_eq:
  "mint_tokens hex k p kw ts s =
     s\<lparr>tokens := tokens s @ minted hex k p kw ts,
       history := history s @ map (\<lambda>t. TOKEN_CREATE (tok_instance_id t) (tok_name (tok_template t)) (owner t))
         (minted hex k p kw ts)\<rparr>"
  by (induction ts arbitrary: k s) (simp_all add: Let_def log_token_creation_def)

lemma minted_template: "map tok_template (minted hex k p kw ts) = ts"
  by (induction ts arbitrary: k) (simp_all add: new_token_def)

lemma minted_state: "t \<in> set (minted hex k p kw ts) \<Longrightarrow> state t = INACTIVE"
  by (induction ts arbitrary: k) (auto simp: new_token_def)

section \<open>What a call writes to the trace\<close>




lemma create_artifact_instance_frame:
  "tokens (fst (create_artifact_instance ty iid props s)) = tokens s"
  "history (fst (create_artifact_instance ty iid props s)) = history s"
  "parties (fst (create_artifact_instance ty iid props s)) = parties s"
  "model (fst (create_artifact_instance ty iid props s)) = model s"
  "policy_values (fst (create_artifact_instance ty iid props s)) = policy_values s"
  by (simp_all add: create_artifact_instance_def split: list.splits option.splits)

lemma create_and_bind_frame:
  assumes "create_and_bind ty iid props key kw s = Inr (s2, kw')"
  shows "tokens s2 = tokens s \<and> history s2 = history s \<and> parties s2 = parties s
    \<and> model s2 = model s \<and> policy_values s2 = policy_values s"
proof -
  obtain s' out where c: "create_artifact_instance ty iid props s = (s', out)"
    by (cases "create_artifact_instance ty iid props s")
  with assms have "s2 = s'"
    by (auto simp: create_and_bind_def split: outcome.splits option.splits)
  with c create_artifact_instance_frame [of ty iid props s] show ?thesis by simp
qed

lemma apply_builtin_frame:
  assumes "apply_builtin rnd a p kw s = Inr (s2, kw')"
  shows "tokens s2 = tokens s \<and> history s2 = history s \<and> parties s2 = parties s
    \<and> model s2 = model s \<and> policy_values s2 = policy_values s"
  using assms
  by (auto simp: apply_builtin_def Let_def dest: create_and_bind_frame
      split: if_splits pvalue.splits option.splits)






section \<open>Creation of tokens\<close>

lemmas library_defs = world_def alice_def bob_def carol_def libby_def borrower_def
  proxy_borrower_def librarian_def accept_loan_def renew_loan_def proxy_return_item_def
  return_item_delegation_def quiet_delegation_def register_loan_def close_library_def
  alice_burden_def bob_permit_def carol_embargo_def return_item_def proxy_permit_def
  no_borrowing_def the_loan_def loan_artifact_def item_returned_def burden_delegated_def

lemmas engine_defs = perform_action_def get_action_def role_get_action_def find_embargo_def
  party_eq_def guard_passes_def guard_evaluate_def execute_action_def apply_builtin_def
  perform_delegation_def mint_phase_def fire_phase_def fire_event_def fire_token_def
  new_token_def resolve_token_owner_def log_action_def log_action_prohibited_def
  log_token_creation_def log_token_state_change_def check_recipient_def delegable_def
  dict_get_def has_role_def hashable_def py_in_def artifact_eq_def Let_def

text \<open>
  Claim C1 says that a token minted from a template without activation trigger is
  created \<^verbatim>\<open>ACTIVE\<close>. It is not: Alice performs the speech act \<^verbatim>\<open>acceptLoan\<close>, whose
  template \<^verbatim>\<open>return_item\<close> has no activation trigger; the call returns and the token
  it appended is \<^verbatim>\<open>INACTIVE\<close>.
\<close>

theorem mint_active_counterexample:
  "get_action alice ''acceptLoan'' = Some accept_loan
   \<and> variant accept_loan = SpeechAct [return_item]
   \<and> activation_trigger return_item = None
   \<and> snd (perform_action (always Truthy) draws_a ''Alice'' ''acceptLoan''
        [(''loan'', VArt the_loan)] world) = Returned
   \<and> map state (drop 3 (tokens (fst (perform_action (always Truthy) draws_a ''Alice'' ''acceptLoan''
        [(''loan'', VArt the_loan)] world)))) = [INACTIVE]"
  by (simp add: engine_defs library_defs always_def)

text \<open>
  Claim C1, amended. Every token instance minted by a successfully performed speech
  act (an authorization or a declaration included) is created \<^verbatim>\<open>INACTIVE\<close>, whether
  its template has an activation trigger or not. When the call is not denied and its
  built-in side effect does not raise, the call is the firing of the action's trigger
  event in the engine in which the instances of the action's templates stand behind
  the existing tokens, each \<^verbatim>\<open>INACTIVE\<close>, with their \<^verbatim>\<open>TOKEN_CREATE\<close> entries behind
  the \<^verbatim>\<open>ACTION\<close> entry; without a trigger event that engine is the result.
\<close>

theorem speech_act_mints_inactive:
  assumes "fst ` set kw \<inter> {''self'', ''party_name'', ''action_name''} = {}"
    and "map_of (parties s) pname = Some p"
    and "get_action p an = Some a"
    and "find_embargo p (tokens s) = None"
    and "guard_passes py_eval a p kw s = Inr True"
    and "apply_builtin rnd a p kw (s\<lparr>history := log_action p a kw (history s)\<rparr>) = Inr (s2, kw')"
    and "variant a = SpeechAct ts \<or> variant a = Authorization ts \<or> variant a = Declaration ts"
  shows "perform_action py_eval rnd pname an kw s =
      fire_phase a kw'
        (s2\<lparr>tokens := tokens s @ minted (tok_hex rnd) 0 p kw' ts,
            history := history s @ ACTION p (act_name a) kw
              # map (\<lambda>t. TOKEN_CREATE (tok_instance_id t) (tok_name (tok_template t)) (owner t))
                  (minted (tok_hex rnd) 0 p kw' ts)\<rparr>)
    \<and> map tok_template (minted (tok_hex rnd) 0 p kw' ts) = ts
    \<and> (\<forall>t \<in> set (minted (tok_hex rnd) 0 p kw' ts). state t = INACTIVE)
    \<and> (trigger_event a = None \<longrightarrow>
          snd (perform_action py_eval rnd pname an kw s) = Returned
        \<and> tokens (fst (perform_action py_eval rnd pname an kw s))
            = tokens s @ minted (tok_hex rnd) 0 p kw' ts)"
proof -
  have fr: "tokens s2 = tokens s" "history s2 = history s @ [ACTION p (act_name a) kw]"
    using apply_builtin_frame [OF assms(6)] by (simp_all add: log_action_def)
  have sp: "speech_act_tokens (variant a) = Some ts" and nd: "perform_delegation a p kw' s2 = (s2, None)"
    using assms(7) by (auto simp: perform_delegation_def)
  have m: "mint_phase rnd a p kw' s2 =
      s2\<lparr>tokens := tokens s @ minted (tok_hex rnd) 0 p kw' ts,
         history := history s @ ACTION p (act_name a) kw
           # map (\<lambda>t. TOKEN_CREATE (tok_instance_id t) (tok_name (tok_template t)) (owner t))
               (minted (tok_hex rnd) 0 p kw' ts)\<rparr>"
    using sp fr by (simp add: mint_phase_def mint_tokens_eq)
  have call: "perform_action py_eval rnd pname an kw s = fire_phase a kw' (mint_phase rnd a p kw' s2)"
    using assms(1-6) nd by (simp add: perform_action_def execute_action_def Let_def)
  have nofire: "trigger_event a = None \<longrightarrow>
          snd (perform_action py_eval rnd pname an kw s) = Returned
        \<and> tokens (fst (perform_action py_eval rnd pname an kw s))
            = tokens s @ minted (tok_hex rnd) 0 p kw' ts"
    using call m by (simp add: fire_phase_def)
  from call m nofire show ?thesis
    by (simp add: minted_template minted_state)
qed

theorem speech_act_mints_inactive_witness:
  "map_of (parties world) ''Libby'' = Some libby
   \<and> get_action libby ''registerLoan'' = Some register_loan
   \<and> variant register_loan = Declaration [return_item, proxy_permit]
   \<and> activation_trigger return_item = None
   \<and> activation_trigger proxy_permit = Some burden_delegated
   \<and> snd (perform_action (always Truthy) draws_a ''Libby'' ''registerLoan'' [] world) = Returned
   \<and> map state (drop (length (tokens world))
        (tokens (fst (perform_action (always Truthy) draws_a ''Libby'' ''registerLoan'' [] world))))
       = [INACTIVE, INACTIVE]"
proof -
  have k: "fst ` set ([] :: kwargs) \<inter> {''self'', ''party_name'', ''action_name''} = {}" by simp
  have p: "map_of (parties world) ''Libby'' = Some libby" by (simp add: world_def)
  have a: "get_action libby ''registerLoan'' = Some register_loan"
    by (simp add: get_action_def role_get_action_def libby_def librarian_def register_loan_def)
  have e: "find_embargo libby (tokens world) = None"
    by (simp add: find_embargo_def party_eq_def library_defs)
  have g: "guard_passes (always Truthy) register_loan libby [] world = Inr True"
    by (simp add: guard_passes_def register_loan_def)
  have b: "apply_builtin draws_a register_loan libby []
       (world\<lparr>history := log_action libby register_loan [] (history world)\<rparr>)
     = Inr (world\<lparr>history := log_action libby register_loan [] (history world)\<rparr>, [])"
    by (simp add: apply_builtin_def register_loan_def)
  have v: "variant register_loan = SpeechAct [return_item, proxy_permit]
      \<or> variant register_loan = Authorization [return_item, proxy_permit]
      \<or> variant register_loan = Declaration [return_item, proxy_permit]"
    by (simp add: register_loan_def)
  have v': "variant register_loan = Declaration [return_item, proxy_permit]"
    by (simp add: register_loan_def)
  have t: "activation_trigger return_item = None \<and> activation_trigger proxy_permit = Some burden_delegated"
    by (simp add: return_item_def proxy_permit_def)
  have n: "trigger_event register_loan = None" by (simp add: register_loan_def)
  from speech_act_mints_inactive [OF k p a e g b v] n
  have r: "snd (perform_action (always Truthy) draws_a ''Libby'' ''registerLoan'' [] world) = Returned"
    and tk: "tokens (fst (perform_action (always Truthy) draws_a ''Libby'' ''registerLoan'' [] world))
       = tokens world @ minted (tok_hex draws_a) 0 libby [] [return_item, proxy_permit]"
    and st: "\<forall>t \<in> set (minted (tok_hex draws_a) 0 libby [] [return_item, proxy_permit]). state t = INACTIVE"
    by blast+
  from tk st have "map state (drop (length (tokens world))
        (tokens (fst (perform_action (always Truthy) draws_a ''Libby'' ''registerLoan'' [] world))))
       = [INACTIVE, INACTIVE]"
    by simp
  with p a v' t r show ?thesis by blast
qed

section \<open>Denied calls\<close>


lemma appended_append [simp]: "history s' = history s @ es \<Longrightarrow> appended s s' = es"
  by (simp add: appended_def)

lemma party_eq_refl [simp]: "party_eq p p"
  by (simp add: party_eq_def)


lemma party_eq_trans: "party_eq p q \<Longrightarrow> party_eq q r \<Longrightarrow> party_eq p r"
  by (simp add: party_eq_def)






lemma perform_action_embargo:
  assumes "map_of (parties s) pname = Some p" "find_embargo p (tokens s) = Some t"
  shows "perform_action py_eval rnd pname an kw s =
    (if fst ` set kw \<inter> {''self'', ''party_name'', ''action_name''} \<noteq> {} then (s, Raised TypeError)
     else if get_action p an = None then (s, Returned)
     else (s\<lparr>history := history s @ [ACTION_PROHIBITED p an
            (''Active embargo '' @ [CHR 0x27] @ tok_name (tok_template t) @ [CHR 0x27])]\<rparr>, Returned))"
  using assms by (auto simp: perform_action_def log_action_prohibited_def)




text \<open>
  Claim C6 says that a guard that raises is caught and treated as false. \<^verbatim>\<open>except
  Exception\<close> does not catch \<^verbatim>\<open>SystemExit\<close>: the guard \<^verbatim>\<open>exit()\<close> of the librarian's
  action raises it, the exception leaves \<^verbatim>\<open>perform_action\<close> and nothing is logged,
  where a false guard makes the call return with an \<^verbatim>\<open>ACTION_PROHIBITED\<close> entry.
\<close>

theorem guard_exit_counterexample:
  "get_action libby ''closeLibrary'' = Some close_library
   \<and> act_guard close_library = Some \<lparr>raw = ''exit()''\<rparr>
   \<and> exit_eval ''exit()'' (guard_context world libby []) = RaisesSystemExit
   \<and> perform_action exit_eval draws_a ''Libby'' ''closeLibrary'' [] world
       = (world, Raised SystemExit)
   \<and> perform_action (always Falsy) draws_a ''Libby'' ''closeLibrary'' [] world
       = (world\<lparr>history := [ACTION_PROHIBITED libby ''closeLibrary'' ''Guard failed: exit()'']\<rparr>,
          Returned)"
  by (simp add: engine_defs library_defs always_def exit_eval_def)

text \<open>
  Claim C6, amended. When the guard of the action does not evaluate to true (it is
  false, or its evaluation raises), the call changes nothing but the trace, and every
  entry it appends is an \<^verbatim>\<open>ACTION_PROHIBITED\<close>: no \<^verbatim>\<open>TOKEN_CREATE\<close> entry, no
  artifact created or deleted, no token minted, activated or discharged. A guard
  that raises an \<^verbatim>\<open>Exception\<close> is caught and treated exactly as a false guard: the
  call returns, appends one entry, and has the result it has when the guard is false.
  A guard that raises outside the class \<^verbatim>\<open>Exception\<close> is not caught: unless an
  embargo has already denied the call, the exception leaves \<^verbatim>\<open>perform_action\<close> with
  the engine as it was.
\<close>

theorem guard_closure:
  assumes "fst ` set kw \<inter> {''self'', ''party_name'', ''action_name''} = {}"
    and "map_of (parties s) pname = Some p" and "get_action p an = Some a"
    and "act_guard a = Some g" and "py_eval (raw g) (guard_context s p kw) \<noteq> Truthy"
  shows "artifacts (fst (perform_action py_eval rnd pname an kw s)) = artifacts s
    \<and> tokens (fst (perform_action py_eval rnd pname an kw s)) = tokens s
    \<and> parties (fst (perform_action py_eval rnd pname an kw s)) = parties s
    \<and> history (fst (perform_action py_eval rnd pname an kw s))
        = history s @ appended s (fst (perform_action py_eval rnd pname an kw s))
    \<and> (\<forall>e \<in> set (appended s (fst (perform_action py_eval rnd pname an kw s))). is_prohibited e)
    \<and> (py_eval (raw g) (guard_context s p kw) \<noteq> RaisesSystemExit \<longrightarrow>
          snd (perform_action py_eval rnd pname an kw s) = Returned
        \<and> length (appended s (fst (perform_action py_eval rnd pname an kw s))) = 1
        \<and> perform_action py_eval rnd pname an kw s = perform_action (always Falsy) rnd pname an kw s)
    \<and> (py_eval (raw g) (guard_context s p kw) = RaisesSystemExit
          \<and> find_embargo p (tokens s) = None \<longrightarrow>
          perform_action py_eval rnd pname an kw s = (s, Raised SystemExit))"
proof (cases "find_embargo p (tokens s)")
  case (Some t)
  with assms(1,2,3) show ?thesis
    by (simp add: perform_action_embargo appended_def)
next
  case None
  have f: "guard_passes (always Falsy) a p kw s = Inr False"
    using assms(4) by (simp add: guard_passes_def guard_evaluate_def always_def)
  show ?thesis
  proof (cases "py_eval (raw g) (guard_context s p kw) = RaisesSystemExit")
    case True
    then have "guard_passes py_eval a p kw s = Inl SystemExit"
      using assms(4) by (simp add: guard_passes_def guard_evaluate_def)
    with assms(1,2,3) None True show ?thesis
      by (simp add: perform_action_def appended_def)
  next
    case False
    with assms(5) have "guard_passes py_eval a p kw s = Inr False"
      using assms(4) by (auto simp: guard_passes_def guard_evaluate_def split: eval_result.splits)
    with assms(1,2,3) None False f show ?thesis
      by (simp add: perform_action_def log_action_prohibited_def appended_def)
  qed
qed

theorem guard_closure_witness:
  "map_of (parties world) ''Alice'' = Some alice
   \<and> get_action alice ''renewLoan'' = Some renew_loan
   \<and> act_guard renew_loan = Some \<lparr>raw = ''loanCount(self) < maxLoans''\<rparr>
   \<and> always RaisesException ''loanCount(self) < maxLoans'' (guard_context world alice []) = RaisesException
   \<and> snd (perform_action (always RaisesException) draws_a ''Alice'' ''renewLoan'' [] world) = Returned
   \<and> tokens (fst (perform_action (always RaisesException) draws_a ''Alice'' ''renewLoan'' [] world)) = tokens world
   \<and> length (appended world (fst (perform_action (always RaisesException) draws_a ''Alice'' ''renewLoan'' [] world))) = 1
   \<and> perform_action (always RaisesException) draws_a ''Alice'' ''renewLoan'' [] world
       = perform_action (always Falsy) draws_a ''Alice'' ''renewLoan'' [] world"
proof -
  have k: "fst ` set ([] :: kwargs) \<inter> {''self'', ''party_name'', ''action_name''} = {}" by simp
  have p: "map_of (parties world) ''Alice'' = Some alice"
    by (simp add: world_def)
  have a: "get_action alice ''renewLoan'' = Some renew_loan"
    by (simp add: get_action_def role_get_action_def alice_def borrower_def accept_loan_def renew_loan_def)
  have g: "act_guard renew_loan = Some \<lparr>raw = ''loanCount(self) < maxLoans''\<rparr>"
    by (simp add: renew_loan_def)
  have r: "always RaisesException ''loanCount(self) < maxLoans'' (guard_context world alice []) = RaisesException"
    by (simp add: always_def)
  have n: "always RaisesException (raw \<lparr>raw = ''loanCount(self) < maxLoans''\<rparr>) (guard_context world alice []) \<noteq> Truthy"
    by (simp add: always_def)
  have x: "always RaisesException (raw \<lparr>raw = ''loanCount(self) < maxLoans''\<rparr>) (guard_context world alice []) \<noteq> RaisesSystemExit"
    by (simp add: always_def)
  from guard_closure [where py_eval = "always RaisesException" and rnd = draws_a, OF k p a g n] x
  have "snd (perform_action (always RaisesException) draws_a ''Alice'' ''renewLoan'' [] world) = Returned
   \<and> tokens (fst (perform_action (always RaisesException) draws_a ''Alice'' ''renewLoan'' [] world)) = tokens world
   \<and> length (appended world (fst (perform_action (always RaisesException) draws_a ''Alice'' ''renewLoan'' [] world))) = 1
   \<and> perform_action (always RaisesException) draws_a ''Alice'' ''renewLoan'' [] world
       = perform_action (always Falsy) draws_a ''Alice'' ''renewLoan'' [] world"
    by blast
  with p a g r show ?thesis by blast
qed

section \<open>Failed delegations\<close>

text \<open>
  Claim C3 wants a delegation whose preconditions fail logged by
  \<^verbatim>\<open>log_action_prohibited\<close> and without effect. The delegation block only prints.
  When the recipient lacks the agent role (Alice delegates to Carol, a borrower) the
  call returns after its \<^verbatim>\<open>ACTION\<close> entry, and no \<^verbatim>\<open>ACTION_PROHIBITED\<close> entry is
  written. When no active token matches (Alice delegates to Bob without naming the
  loan) the block does not even return: the trigger event of the delegation is fired
  and activates Bob's waiting permit.
\<close>

theorem delegation_denial_unrecorded:
  "perform_action (always Truthy) draws_a ''Alice'' ''return_item_delegation''
      [(''loan'', VArt the_loan), (''agent'', VParty carol)] world
     = (world\<lparr>history := [ACTION alice ''return_item_delegation''
                  [(''loan'', VArt the_loan), (''agent'', VParty carol)]]\<rparr>, Returned)
   \<and> perform_action (always Truthy) draws_a ''Alice'' ''return_item_delegation''
      [(''agent'', VParty bob)] world
     = (world\<lparr>tokens := [alice_burden, bob_permit\<lparr>state := ACTIVE\<rparr>, carol_embargo],
              history := [ACTION alice ''return_item_delegation'' [(''agent'', VParty bob)],
                TOKEN_STATE_CHANGE ''token-b1'' ''proxy_permit'' bob ACTIVE ''burdenDelegated'']\<rparr>,
        Returned)"
  by (simp add: engine_defs library_defs always_def)

text \<open>
  Claim C8 wants every call to return. A delegation performed without the keyword
  argument \<^verbatim>\<open>agent\<close> enters the branch that reports a missing recipient, and the
  message of that branch reads \<^verbatim>\<open>new_owner.name\<close> of \<^verbatim>\<open>None\<close>: \<^verbatim>\<open>AttributeError\<close>
  leaves \<^verbatim>\<open>perform_action\<close>, after the \<^verbatim>\<open>ACTION\<close> entry is written.
\<close>

theorem delegation_without_agent_raises:
  "perform_action (always Truthy) draws_a ''Alice'' ''return_item_delegation''
      [(''loan'', VArt the_loan)] world
     = (world\<lparr>history := [ACTION alice ''return_item_delegation'' [(''loan'', VArt the_loan)]]\<rparr>,
        Raised AttributeError)"
  by (simp add: engine_defs library_defs always_def)

section \<open>Index construction\<close>

lemma update_fresh: "k \<notin> fst ` set al \<Longrightarrow> AList.update k v al = al @ [(k, v)]"
  by (induction al) auto

lemma index_by_eq:
  "index_by nm xs idx =
     (if distinct (map nm xs) \<and> set (map nm xs) \<inter> fst ` set idx = {}
      then Inr (idx @ map (\<lambda>x. (nm x, x)) xs) else Inl ValueError)"
proof (induction xs arbitrary: idx)
  case Nil
  then show ?case by simp
next
  case (Cons x xs)
  show ?case
  proof (cases "nm x \<in> fst ` set idx")
    case True
    then show ?thesis by auto
  next
    case False
    then have u: "AList.update (nm x) x idx = idx @ [(nm x, x)]" by (rule update_fresh)
    show ?thesis using False Cons.IH [of "idx @ [(nm x, x)]"] u
      by (auto simp: image_Un)
  qed
qed

lemma index_by_empty:
  "index_by nm xs [] =
     (if distinct (map nm xs) then Inr (map (\<lambda>x. (nm x, x)) xs) else Inl ValueError)"
  by (simp add: index_by_eq)

lemma map_of_dict_merge: "map_of (dict_merge d new) = map_of d ++ map_of (rev new)"
  unfolding dict_merge_def
proof (induction new arbitrary: d)
  case Nil
  then show ?case by simp
next
  case (Cons kv new)
  obtain k v where kv: "kv = (k, v)" by (cases kv)
  have "map_of (foldl (\<lambda>acc (k, v). AList.update k v acc) (AList.update k v d) new)
      = map_of (AList.update k v d) ++ map_of (rev new)"
    by (rule Cons.IH)
  also have "\<dots> = (map_of d)(k \<mapsto> v) ++ map_of (rev new)"
    by (simp add: update_conv')
  also have "\<dots> = map_of d ++ map_of (rev new @ [(k, v)])"
    by (simp add: map_add_upd_left fun_eq_iff map_add_def split: option.splits)
  finally show ?case using kv by simp
qed

text \<open>
  Claim C9 says that two policies of one name are refused. Neither
  \<^verbatim>\<open>build_indexes\<close> nor the engine looks: the indexes of the library with two
  policies \<^verbatim>\<open>loanPeriod\<close> are built, and the engine keeps the value of the second.
\<close>

theorem twin_policies_counterexample:
  "com_rules twin_policies = [RulePolicy loan_period_short, RulePolicy loan_period_long]
   \<and> pol_name loan_period_short = pol_name loan_period_long
   \<and> build_indexes twin_policies = Inr twin_policies
   \<and> policy_values (Engine \<lparr>simple_types = [], communities = [twin_policies]\<rparr>)
       = [(''loanPeriod'', Duration 28 ''days'')]"
  by (simp add: twin_policies_def loan_period_short_def loan_period_long_def build_indexes_def
      library_def Engine_def init_policy_values_def dict_merge_def
      borrower_def proxy_borrower_def librarian_def loan_artifact_def item_returned_def
      burden_delegated_def)

text \<open>
  Claim C9, amended. \<^verbatim>\<open>build_indexes\<close> refuses duplicates among roles, artifacts
  and events: when two roles, two artifacts or two events of the community share a
  name it fails with \<^verbatim>\<open>ValueError\<close>, and otherwise it indexes every element of the
  three lists under its name. Policy names are not checked: the engine's
  \<^verbatim>\<open>policy_values\<close> gives a name the initial value of the last policy that bears it.
\<close>

theorem build_indexes_refuses_duplicates:
  "(\<not> distinct (map role_name (com_roles c)) \<or> \<not> distinct (map art_name (com_artifacts c))
      \<or> \<not> distinct (map ev_name (com_events c))
      \<longrightarrow> build_indexes c = Inl ValueError)
   \<and> (distinct (map role_name (com_roles c)) \<and> distinct (map art_name (com_artifacts c))
      \<and> distinct (map ev_name (com_events c))
      \<longrightarrow> build_indexes c =
            Inr (c\<lparr>role_index := map (\<lambda>r. (role_name r, r)) (com_roles c),
                   artifact_index := map (\<lambda>a. (art_name a, a)) (com_artifacts c),
                   event_index := map (\<lambda>e. (ev_name e, e)) (com_events c)\<rparr>))
   \<and> map_of (policy_values (Engine m)) n
       = map_of (rev (concat (map (\<lambda>c. policy_entries (com_rules c)) (communities m)))) n"
  by (simp add: build_indexes_def index_by_empty Engine_def init_policy_values_def map_of_dict_merge)

theorem build_indexes_refuses_duplicates_witness:
  "\<not> distinct (map role_name (com_roles twin_roles))
   \<and> build_indexes twin_roles = Inl ValueError
   \<and> distinct (map role_name (com_roles library))
   \<and> distinct (map art_name (com_artifacts library))
   \<and> distinct (map ev_name (com_events library))
   \<and> build_indexes library = Inr library"
proof -
  have d: "\<not> distinct (map role_name (com_roles twin_roles))"
    by (simp add: twin_roles_def borrower_def)
  have e: "distinct (map role_name (com_roles library)) \<and> distinct (map art_name (com_artifacts library))
      \<and> distinct (map ev_name (com_events library))"
    by (simp add: library_def borrower_def proxy_borrower_def librarian_def loan_artifact_def
        item_returned_def burden_delegated_def)
  from build_indexes_refuses_duplicates [of twin_roles] d
  have r: "build_indexes twin_roles = Inl ValueError" by blast
  from build_indexes_refuses_duplicates [of library] e
  have "build_indexes library =
            Inr (library\<lparr>role_index := map (\<lambda>r. (role_name r, r)) (com_roles library),
                   artifact_index := map (\<lambda>a. (art_name a, a)) (com_artifacts library),
                   event_index := map (\<lambda>e. (ev_name e, e)) (com_events library)\<rparr>)"
    by blast
  then have l: "build_indexes library = Inr library"
    by (simp add: library_def borrower_def proxy_borrower_def librarian_def loan_artifact_def
        item_returned_def burden_delegated_def)
  from d r e l show ?thesis by blast
qed

section \<open>Delegation\<close>

lemma find_index_Some:
  "find_index P xs = Some i \<Longrightarrow> i < length xs \<and> P (xs ! i)"
proof (induction xs arbitrary: i)
  case Nil
  then show ?case by simp
next
  case (Cons x xs)
  show ?case
  proof (cases "P x")
    case True
    with Cons.prems show ?thesis by simp
  next
    case False
    with Cons.prems obtain j where j: "find_index P xs = Some j" "i = Suc j" by auto
    from Cons.IH [OF j(1)] j(2) show ?thesis by simp
  qed
qed

lemma fire_token_no_create:
  "fire_token ev t = Inr (t', es) \<Longrightarrow> \<forall>e \<in> set es. \<not> is_token_create e"
  by (auto simp: fire_token_def Let_def log_token_state_change_def split: if_splits sum.splits)

lemma fire_loop_no_create: "\<forall>e \<in> set (fst (snd (fire_loop ev ts))). \<not> is_token_create e"
proof (induction ts)
  case Nil
  then show ?case by simp
next
  case (Cons t ts)
  show ?case
  proof (cases "fire_token ev t")
    case (Inl err)
    then show ?thesis by simp
  next
    case (Inr r)
    obtain t' es where r: "r = (t', es)" by (cases r)
    obtain ts' es' out where l: "fire_loop ev ts = (ts', es', out)" by (cases "fire_loop ev ts")
    from Inr r have "\<forall>e \<in> set es. \<not> is_token_create e" using fire_token_no_create by blast
    with Cons.IH l Inr r show ?thesis by auto
  qed
qed

lemma fire_event_history:
  "\<exists>es. history (fst (fire_event ev s)) = history s @ es \<and> (\<forall>e \<in> set es. \<not> is_token_create e)"
proof (cases "hashable ev")
  case False
  then show ?thesis by (simp add: fire_event_def)
next
  case True
  obtain ts es out where l: "fire_loop ev (tokens s) = (ts, es, out)"
    by (cases "fire_loop ev (tokens s)")
  have "\<forall>e \<in> set es. \<not> is_token_create e" using fire_loop_no_create [of ev "tokens s"] l by simp
  with True l show ?thesis by (auto simp: fire_event_def)
qed

lemma fire_phase_history:
  "\<exists>es. history (fst (fire_phase a kw s)) = history s @ es \<and> (\<forall>e \<in> set es. \<not> is_token_create e)"
  using fire_event_history by (auto simp: fire_phase_def split: option.splits)

lemma fire_phase_nth:
  assumes "j < length (tokens s)"
  shows "length (tokens (fst (fire_phase a kw s))) = length (tokens s)
    \<and> tok_template (tokens (fst (fire_phase a kw s)) ! j) = tok_template (tokens s ! j)
    \<and> owner (tokens (fst (fire_phase a kw s)) ! j) = owner (tokens s ! j)
    \<and> tok_instance_id (tokens (fst (fire_phase a kw s)) ! j) = tok_instance_id (tokens s ! j)
    \<and> tok_context (tokens (fst (fire_phase a kw s)) ! j) = tok_context (tokens s ! j)
    \<and> advances (state (tokens s ! j)) (state (tokens (fst (fire_phase a kw s)) ! j))"
proof (cases "trigger_event a")
  case None
  then show ?thesis by (simp add: fire_phase_def advances_def)
next
  case (Some ev)
  show ?thesis
  proof (cases "''event'' \<in> fst ` set kw \<or> ''self'' \<in> fst ` set kw")
    case True
    with Some show ?thesis by (simp add: fire_phase_def advances_def)
  next
    case False
    with Some have f: "fire_phase a kw s = fire_event ev s" by (simp add: fire_phase_def)
    from fire_event_nth [OF assms, of ev]
    have len: "length (tokens (fst (fire_event ev s))) = length (tokens s)"
      and alt: "tokens (fst (fire_event ev s)) ! j = tokens s ! j
        \<or> tokens (fst (fire_event ev s)) ! j = fired ev (tokens s ! j)"
      and adv: "advances (state (tokens s ! j)) (state (tokens (fst (fire_event ev s)) ! j))"
      by blast+
    from alt have "tok_template (tokens (fst (fire_event ev s)) ! j) = tok_template (tokens s ! j)
      \<and> owner (tokens (fst (fire_event ev s)) ! j) = owner (tokens s ! j)
      \<and> tok_instance_id (tokens (fst (fire_event ev s)) ! j) = tok_instance_id (tokens s ! j)
      \<and> tok_context (tokens (fst (fire_event ev s)) ! j) = tok_context (tokens s ! j)"
      by (auto simp: fired_frame)
    with len adv f show ?thesis by simp
  qed
qed

text \<open>
  Claim C2 says that a successful delegation leaves the state of every token
  unchanged. The trigger event of the delegation is fired like that of any action:
  Alice delegates her burden to Bob, and the event \<^verbatim>\<open>burdenDelegated\<close> activates
  Bob's waiting permit.
\<close>

theorem delegation_state_counterexample:
  "get_action alice ''return_item_delegation'' = Some return_item_delegation
   \<and> variant return_item_delegation
       = Delegation [] DELEGATED_BURDEN ''return_item'' (Some proxy_borrower)
   \<and> map owner (tokens world) = [alice, bob, carol]
   \<and> map state (tokens world) = [ACTIVE, INACTIVE, ACTIVE]
   \<and> snd (perform_action (always Truthy) draws_a ''Alice'' ''return_item_delegation''
        [(''loan'', VArt the_loan), (''agent'', VParty bob)] world) = Returned
   \<and> map owner (tokens (fst (perform_action (always Truthy) draws_a ''Alice''
        ''return_item_delegation'' [(''loan'', VArt the_loan), (''agent'', VParty bob)] world)))
       = [bob, bob, carol]
   \<and> map state (tokens (fst (perform_action (always Truthy) draws_a ''Alice''
        ''return_item_delegation'' [(''loan'', VArt the_loan), (''agent'', VParty bob)] world)))
       = [ACTIVE, ACTIVE, ACTIVE]"
  by (simp add: engine_defs library_defs always_def)

text \<open>
  Claim C2, amended. A successful delegation, by an action that carries no token
  templates of its own, makes the agent the owner of exactly one token instance, the
  first active token of the performer with the delegated name and the loan of the
  call, and leaves the owner of every other instance, the number of instances and
  the template, identifier and context of every instance as they were; it writes no
  \<^verbatim>\<open>TOKEN_CREATE\<close> entry. Without a trigger event the call returns and the token
  list differs from the old one in that owner only, so that every state is
  unchanged; a trigger event is fired after the transfer and moves a token at most
  one step along its life cycle.
\<close>

theorem delegation_conservation:
  assumes "fst ` set kw \<inter> {''self'', ''party_name'', ''action_name''} = {}"
    and "map_of (parties s) pname = Some p"
    and "get_action p an = Some a"
    and "find_embargo p (tokens s) = None"
    and "guard_passes py_eval a p kw s = Inr True"
    and "apply_builtin rnd a p kw (s\<lparr>history := log_action p a kw (history s)\<rparr>) = Inr (s2, kw')"
    and "variant a = Delegation [] tt tname ag"
    and "check_recipient (dict_get kw' ''agent'') ag = Inr (Some q)"
    and "find_index (delegable p tname (dict_get kw' ''loan'')) (tokens s) = Some i"
  shows "length (tokens (fst (perform_action py_eval rnd pname an kw s))) = length (tokens s)
    \<and> i < length (tokens s)
    \<and> owner (tokens (fst (perform_action py_eval rnd pname an kw s)) ! i) = q
    \<and> (\<forall>j < length (tokens s).
          tok_template (tokens (fst (perform_action py_eval rnd pname an kw s)) ! j)
            = tok_template (tokens s ! j)
        \<and> tok_instance_id (tokens (fst (perform_action py_eval rnd pname an kw s)) ! j)
            = tok_instance_id (tokens s ! j)
        \<and> tok_context (tokens (fst (perform_action py_eval rnd pname an kw s)) ! j)
            = tok_context (tokens s ! j)
        \<and> (j \<noteq> i \<longrightarrow> owner (tokens (fst (perform_action py_eval rnd pname an kw s)) ! j)
            = owner (tokens s ! j))
        \<and> advances (state (tokens s ! j))
            (state (tokens (fst (perform_action py_eval rnd pname an kw s)) ! j)))
    \<and> (\<forall>e \<in> set (appended s (fst (perform_action py_eval rnd pname an kw s))).
          \<not> is_token_create e)
    \<and> (trigger_event a = None \<longrightarrow>
          snd (perform_action py_eval rnd pname an kw s) = Returned
        \<and> tokens (fst (perform_action py_eval rnd pname an kw s))
            = (tokens s)[i := (tokens s ! i)\<lparr>owner := q\<rparr>])"
proof -
  define ti where "ti = (tokens s ! i)\<lparr>owner := q\<rparr>"
  define s3 where "s3 = s2\<lparr>tokens := (tokens s)[i := ti],
    history := log_token_state_change ti (''delegated via '' @ act_name a) (history s2)\<rparr>"
  let ?r = "perform_action py_eval rnd pname an kw s"
  have fr: "tokens s2 = tokens s" "history s2 = history s @ [ACTION p (act_name a) kw]"
    using apply_builtin_frame [OF assms(6)] by (simp_all add: log_action_def)
  have i: "i < length (tokens s)" using find_index_Some [OF assms(9)] by simp
  have d: "perform_delegation a p kw' s2 = (s3, None)"
    using assms(7,8,9) fr by (simp add: perform_delegation_def s3_def ti_def Let_def)
  have m: "mint_phase rnd a p kw' s3 = s3"
    using assms(7) by (simp add: mint_phase_def)
  have call: "?r = fire_phase a kw' s3"
    using assms(1-6) d m by (simp add: perform_action_def execute_action_def Let_def)
  have t3: "tokens s3 = (tokens s)[i := ti]" by (simp add: s3_def)
  have h3: "history s3 = history s @ [ACTION p (act_name a) kw,
      TOKEN_STATE_CHANGE (tok_instance_id ti) (tok_name (tok_template ti)) (owner ti) (state ti)
        (''delegated via '' @ act_name a)]"
    by (simp add: s3_def fr log_token_state_change_def)
  have len: "length (tokens (fst ?r)) = length (tokens s)"
  proof -
    have "i < length (tokens s3)" using i by (simp add: t3)
    from fire_phase_nth [OF this, of a kw'] show ?thesis by (simp add: call t3)
  qed
  have each: "\<forall>j < length (tokens s).
          tok_template (tokens (fst ?r) ! j) = tok_template (tokens s ! j)
        \<and> tok_instance_id (tokens (fst ?r) ! j) = tok_instance_id (tokens s ! j)
        \<and> tok_context (tokens (fst ?r) ! j) = tok_context (tokens s ! j)
        \<and> (j \<noteq> i \<longrightarrow> owner (tokens (fst ?r) ! j) = owner (tokens s ! j))
        \<and> advances (state (tokens s ! j)) (state (tokens (fst ?r) ! j))"
  proof (intro allI impI)
    fix j assume j: "j < length (tokens s)"
    then have "j < length (tokens s3)" by (simp add: t3)
    from fire_phase_nth [OF this, of a kw']
    show "tok_template (tokens (fst ?r) ! j) = tok_template (tokens s ! j)
        \<and> tok_instance_id (tokens (fst ?r) ! j) = tok_instance_id (tokens s ! j)
        \<and> tok_context (tokens (fst ?r) ! j) = tok_context (tokens s ! j)
        \<and> (j \<noteq> i \<longrightarrow> owner (tokens (fst ?r) ! j) = owner (tokens s ! j))
        \<and> advances (state (tokens s ! j)) (state (tokens (fst ?r) ! j))"
      using j by (cases "j = i") (simp_all add: call t3 ti_def)
  qed
  have own: "owner (tokens (fst ?r) ! i) = q"
  proof -
    have "i < length (tokens s3)" using i by (simp add: t3)
    from fire_phase_nth [OF this, of a kw'] show ?thesis
      using i by (simp add: call t3 ti_def)
  qed
  have nocreate: "\<forall>e \<in> set (appended s (fst ?r)). \<not> is_token_create e"
  proof -
    obtain es where es: "history (fst (fire_phase a kw' s3)) = history s3 @ es"
      "\<forall>e \<in> set es. \<not> is_token_create e"
      using fire_phase_history by blast
    then show ?thesis by (simp add: call h3 appended_def)
  qed
  have quiet_case: "trigger_event a = None \<longrightarrow>
      snd ?r = Returned \<and> tokens (fst ?r) = (tokens s)[i := (tokens s ! i)\<lparr>owner := q\<rparr>]"
    by (simp add: call fire_phase_def t3 ti_def)
  from len i own each nocreate quiet_case show ?thesis by blast
qed

theorem delegation_conservation_witness:
  "map_of (parties world) ''Alice'' = Some alice
   \<and> get_action alice ''quiet_delegation'' = Some quiet_delegation
   \<and> variant quiet_delegation = Delegation [] DELEGATED_BURDEN ''return_item'' (Some proxy_borrower)
   \<and> trigger_event quiet_delegation = None
   \<and> check_recipient (VParty bob) (Some proxy_borrower) = Inr (Some bob)
   \<and> find_index (delegable alice ''return_item'' (VArt the_loan)) (tokens world) = Some 0
   \<and> snd (perform_action (always Truthy) draws_a ''Alice'' ''quiet_delegation''
        [(''loan'', VArt the_loan), (''agent'', VParty bob)] world) = Returned
   \<and> tokens (fst (perform_action (always Truthy) draws_a ''Alice'' ''quiet_delegation''
        [(''loan'', VArt the_loan), (''agent'', VParty bob)] world))
       = [alice_burden\<lparr>owner := bob\<rparr>, bob_permit, carol_embargo]"
proof -
  let ?kw = "[(''loan'', VArt the_loan), (''agent'', VParty bob)]"
  have k: "fst ` set ?kw \<inter> {''self'', ''party_name'', ''action_name''} = {}" by simp
  have p: "map_of (parties world) ''Alice'' = Some alice" by (simp add: world_def)
  have a: "get_action alice ''quiet_delegation'' = Some quiet_delegation"
    by (simp add: get_action_def role_get_action_def alice_def borrower_def accept_loan_def
        renew_loan_def return_item_delegation_def quiet_delegation_def)
  have e: "find_embargo alice (tokens world) = None"
    by (simp add: find_embargo_def party_eq_def library_defs)
  have g: "guard_passes (always Truthy) quiet_delegation alice ?kw world = Inr True"
    by (simp add: guard_passes_def quiet_delegation_def)
  have b: "apply_builtin draws_a quiet_delegation alice ?kw
       (world\<lparr>history := log_action alice quiet_delegation ?kw (history world)\<rparr>)
     = Inr (world\<lparr>history := log_action alice quiet_delegation ?kw (history world)\<rparr>, ?kw)"
    by (simp add: apply_builtin_def quiet_delegation_def)
  have v: "variant quiet_delegation = Delegation [] DELEGATED_BURDEN ''return_item'' (Some proxy_borrower)"
    by (simp add: quiet_delegation_def)
  have n: "trigger_event quiet_delegation = None" by (simp add: quiet_delegation_def)
  have c: "check_recipient (VParty bob) (Some proxy_borrower) = Inr (Some bob)"
    by (simp add: check_recipient_def has_role_def bob_def proxy_borrower_def)
  have c': "check_recipient (dict_get ?kw ''agent'') (Some proxy_borrower) = Inr (Some bob)"
    using c by (simp add: dict_get_def)
  have f: "find_index (delegable alice ''return_item'' (VArt the_loan)) (tokens world) = Some 0"
    by (simp add: delegable_def party_eq_def artifact_eq_def dict_get_def library_defs)
  have f': "find_index (delegable alice ''return_item'' (dict_get ?kw ''loan'')) (tokens world) = Some 0"
    using f by (simp add: dict_get_def)
  from delegation_conservation [OF k p a e g b v c' f'] n
  have r: "snd (perform_action (always Truthy) draws_a ''Alice'' ''quiet_delegation'' ?kw world) = Returned"
    and t: "tokens (fst (perform_action (always Truthy) draws_a ''Alice'' ''quiet_delegation'' ?kw world))
       = (tokens world)[0 := (tokens world ! 0)\<lparr>owner := bob\<rparr>]"
    by blast+
  from t have "tokens (fst (perform_action (always Truthy) draws_a ''Alice'' ''quiet_delegation'' ?kw world))
       = [alice_burden\<lparr>owner := bob\<rparr>, bob_permit, carol_embargo]"
    by (simp add: world_def)
  with p a v n c f r show ?thesis by blast
qed

end
